theory Spec2Isabelle
  imports Main
begin

section \<open>Data model (src/llm/base.py, src/config.py)\<close>

text \<open>
  Python strings are modelled as \<open>string\<close>, one \<open>char\<close> per character of the source
  string. Record fields carry a prefix where two classes of the source share a field
  name (\<open>content\<close>, \<open>role\<close>, \<open>model\<close>).
\<close>

text \<open>\<open>@dataclass Message\<close>: role and content.\<close>

record Message =
  role :: string
  content :: string

text \<open>\<open>@dataclass LLMResponse\<close>; the three optional fields default to \<open>None\<close>.\<close>

record LLMResponse =
  r_content :: string
  r_model :: string
  provider :: string
  tokens_used :: "int option"
  finish_reason :: "string option"
  error :: "string option"

text \<open>
  An exception object, as far as the code looks at it: the text \<open>str(e)\<close>. Only
  subclasses of \<open>Exception\<close> are meant, the ones \<open>except Exception\<close> catches.
\<close>

datatype py_exception = PyException (str_of: string)

text \<open>
  What the orchestrator sees of a registered provider: the outcome of one call of
  \<open>provider.generate_response(messages=..., system_prompt=...)\<close>, either an exception
  (\<open>Inl\<close>) or a response (\<open>Inr\<close>). \<open>**kwargs\<close> is empty at every call site of the
  repository and is left out.
\<close>

type_synonym provider_call = "Message list \<Rightarrow> string option \<Rightarrow> py_exception + LLMResponse"

text \<open>\<open>LLMConfig\<close> of src/config.py, the fields the factory reads.\<close>

record LLMConfig =
  default_provider :: string
  enable_fallback :: bool
  fallback_order :: "string list"

text \<open>\<open>LLMFactory\<close>: \<open>self.config.llm\<close> and the dictionary \<open>self._providers\<close>.\<close>

record LLMFactory =
  llm :: LLMConfig
  providers :: "string \<rightharpoonup> provider_call"

section \<open>The fallback orchestrator (src/llm/factory.py)\<close>

text \<open>
  Lines 122-125: \<open>providers_to_try = []\<close>, then the preferred provider is appended
  when it is truthy (not \<open>None\<close>, not the empty string) and a key of \<open>_providers\<close>.
\<close>

definition preferred_first :: "LLMFactory \<Rightarrow> string option \<Rightarrow> string list" where
  "preferred_first f preferred_provider =
     (case preferred_provider of
        None \<Rightarrow> []
      | Some p \<Rightarrow> if p \<noteq> [] \<and> providers f p \<noteq> None then [p] else [])"

text \<open>
  Lines 128-130: the loop over \<open>fallback_order\<close>; a name is appended when it is not yet
  in \<open>providers_to_try\<close> and is a key of \<open>_providers\<close>.
\<close>

fun fallback_loop :: "LLMFactory \<Rightarrow> string list \<Rightarrow> string list \<Rightarrow> string list" where
  "fallback_loop f [] providers_to_try = providers_to_try"
| "fallback_loop f (provider_name # rest) providers_to_try =
     fallback_loop f rest
       (if provider_name \<notin> set providers_to_try \<and> providers f provider_name \<noteq> None
        then providers_to_try @ [provider_name] else providers_to_try)"

text \<open>Lines 121-130 together: the candidate list.\<close>

definition providers_to_try :: "LLMFactory \<Rightarrow> string option \<Rightarrow> string list" where
  "providers_to_try f preferred_provider =
     (let start = preferred_first f preferred_provider
      in if enable_fallback (llm f) then fallback_loop f (fallback_order (llm f)) start
         else start)"

text \<open>
  Lines 133-155: the trial loop. Its state is \<open>last_error\<close> and, as the observable
  effect of \<open>logger.info("Trying provider: ...")\<close>, the list of names tried so far. The
  result is \<open>Some r\<close> when the loop returned \<open>r\<close> and \<open>None\<close> when it ran to its end.
  The lookup \<open>self._providers[provider_name]\<close> is inside the \<open>try\<close>: a missing key is a
  \<open>KeyError\<close> whose text is the quoted name, caught like any other exception, before
  the log line.
\<close>

fun try_providers ::
  "LLMFactory \<Rightarrow> Message list \<Rightarrow> string option \<Rightarrow> string list \<Rightarrow>
   string option \<Rightarrow> string list \<Rightarrow> LLMResponse option \<times> string option \<times> string list" where
  "try_providers f messages system_prompt [] last_error tried = (None, last_error, tried)"
| "try_providers f messages system_prompt (provider_name # rest) last_error tried =
     (case providers f provider_name of
        None \<Rightarrow>
          try_providers f messages system_prompt rest
            (Some ([CHR 0x27] @ provider_name @ [CHR 0x27])) tried
      | Some p \<Rightarrow>
          (case p messages system_prompt of
             Inl e \<Rightarrow>
               try_providers f messages system_prompt rest
                 (Some (str_of e)) (tried @ [provider_name])
           | Inr response \<Rightarrow>
               if finish_reason response \<noteq> Some ''error''
               then (Some response, last_error, tried @ [provider_name])
               else try_providers f messages system_prompt rest
                      (error response) (tried @ [provider_name])))"

text \<open>An f-string renders \<open>None\<close> as the text \<open>None\<close>.\<close>

definition format_optional :: "string option \<Rightarrow> string" where
  "format_optional v = (case v of None \<Rightarrow> ''None'' | Some s \<Rightarrow> s)"

text \<open>Lines 157-167: the synthetic response after the loop.\<close>

definition all_failed_response :: "string option \<Rightarrow> LLMResponse" where
  "all_failed_response last_error =
     \<lparr> r_content = ''I apologize, but I'' @ [CHR 0x27] @ ''m currently unable to process your request. Please try again later.'',
       r_model = ''unknown'',
       provider = ''none'',
       tokens_used = None,
       finish_reason = Some ''error'',
       error = Some (''All providers failed. Last error: '' @ format_optional last_error) \<rparr>"

text \<open>\<open>LLMFactory.generate_with_fallback\<close>, with the names it tried.\<close>

definition generate_with_fallback_traced ::
  "LLMFactory \<Rightarrow> Message list \<Rightarrow> string option \<Rightarrow> string option \<Rightarrow> LLMResponse \<times> string list" where
  "generate_with_fallback_traced f messages system_prompt preferred_provider =
     (case try_providers f messages system_prompt
             (providers_to_try f preferred_provider) None [] of
        (Some response, last_error, tried) \<Rightarrow> (response, tried)
      | (None, last_error, tried) \<Rightarrow> (all_failed_response last_error, tried))"

definition generate_with_fallback ::
  "LLMFactory \<Rightarrow> Message list \<Rightarrow> string option \<Rightarrow> string option \<Rightarrow> LLMResponse" where
  "generate_with_fallback f messages system_prompt preferred_provider =
     fst (generate_with_fallback_traced f messages system_prompt preferred_provider)"

section \<open>The provider adapters (src/llm/base.py and the four provider modules)\<close>

text \<open>The classes registered in \<open>LLMFactory.PROVIDERS\<close> and their \<open>__name__\<close>.\<close>

datatype provider_class = OpenAIProvider | ClaudeProvider | GeminiProvider | HuggingFaceProvider

fun class_name :: "provider_class \<Rightarrow> string" where
  "class_name OpenAIProvider = ''OpenAIProvider''"
| "class_name ClaudeProvider = ''ClaudeProvider''"
| "class_name GeminiProvider = ''GeminiProvider''"
| "class_name HuggingFaceProvider = ''HuggingFaceProvider''"

definition PROVIDERS :: "string \<rightharpoonup> provider_class" where
  "PROVIDERS =
     [''openai'' \<mapsto> OpenAIProvider, ''claude'' \<mapsto> ClaudeProvider,
      ''gemini'' \<mapsto> GeminiProvider, ''huggingface'' \<mapsto> HuggingFaceProvider]"

text \<open>
  \<open>str.replace(old, new)\<close> for a non-empty \<open>old\<close>: the occurrences are replaced from the
  left, without overlap. \<open>str.lower()\<close> on the ASCII letters.
\<close>

function str_replace :: "string \<Rightarrow> string \<Rightarrow> string \<Rightarrow> string" where
  "str_replace old new s =
     (if s = [] \<or> old = [] then s
      else if take (length old) s = old then new @ str_replace old new (drop (length old) s)
      else hd s # str_replace old new (tl s))"
  by pat_completeness auto
termination
  by (relation "measure (\<lambda>(old, new, s). length s)") auto

definition lower_char :: "char \<Rightarrow> char" where
  "lower_char c =
     (let n = (of_char c :: nat) in if 65 \<le> n \<and> n \<le> 90 then char_of (n + 32) else c)"

definition str_lower :: "string \<Rightarrow> string" where
  "str_lower s = map lower_char s"

text \<open>\<open>self.__class__.__name__.replace("Provider", "").lower()\<close>\<close>

definition class_provider_id :: "provider_class \<Rightarrow> string" where
  "class_provider_id c = str_lower (str_replace ''Provider'' [] (class_name c))"

text \<open>
  What the SDK clients are asked and what they answer, as far as \<open>generate_response\<close>
  reads it. The sampling parameters (temperature, max_tokens) are passed through
  unchanged and are left out. One call of a client either raises (network,
  authentication, timeout, an answer the SDK cannot parse, ...) or answers.
  \<^item> OpenAI: \<open>client.chat.completions.create(model, messages)\<close> answers with
    \<open>choices\<close>, each with \<open>message.content\<close> and \<open>finish_reason\<close>, and with
    \<open>usage.total_tokens\<close> (\<open>usage\<close> may be absent);
  \<^item> Claude: \<open>client.messages.create(model, system, messages)\<close> answers with the
    texts of the \<open>content\<close> blocks, \<open>usage.input_tokens\<close>, \<open>usage.output_tokens\<close> and
    \<open>stop_reason\<close>;
  \<^item> Gemini: \<open>client.start_chat(history)\<close> answers with a chat, and
    \<open>chat.send_message(text)\<close> answers with \<open>response.text\<close>;
  \<^item> HuggingFace: \<open>client.chat_completion(messages, model)\<close> answers with
    \<open>choices\<close>, each with \<open>message.content\<close> and \<open>finish_reason\<close>.
\<close>

record choice =
  message_content :: string
  choice_finish_reason :: "string option"

record openai_completion =
  choices :: "choice list"
  usage_total_tokens :: "int option"

record anthropic_message =
  content_texts :: "string list"
  input_tokens :: int
  output_tokens :: int
  stop_reason :: "string option"

record hf_output =
  hf_choices :: "choice list"

type_synonym openai_client = "string \<Rightarrow> Message list \<Rightarrow> py_exception + openai_completion"

type_synonym anthropic_client =
  "string \<Rightarrow> string \<Rightarrow> Message list \<Rightarrow> py_exception + anthropic_message"

type_synonym gemini_chat = "string \<Rightarrow> py_exception + string"

type_synonym gemini_model = "(string \<times> string) list \<Rightarrow> py_exception + gemini_chat"

type_synonym hf_client = "Message list \<Rightarrow> string \<Rightarrow> py_exception + hf_output"

text \<open>
  A provider instance: its class, \<open>self.model\<close> and \<open>self.client\<close>. Each class sets
  \<open>self.client\<close> to a client of its own SDK in \<open>validate_config\<close>, so the class of an
  instance fixes the kind of its client.
\<close>

datatype adapter =
    OpenAI string openai_client
  | Claude string anthropic_client
  | Gemini string gemini_model
  | HuggingFace string hf_client

fun cls :: "adapter \<Rightarrow> provider_class" where
  "cls (OpenAI mdl c) = OpenAIProvider"
| "cls (Claude mdl c) = ClaudeProvider"
| "cls (Gemini mdl c) = GeminiProvider"
| "cls (HuggingFace mdl c) = HuggingFaceProvider"

fun model :: "adapter \<Rightarrow> string" where
  "model (OpenAI mdl c) = mdl"
| "model (Claude mdl c) = mdl"
| "model (Gemini mdl c) = mdl"
| "model (HuggingFace mdl c) = mdl"

text \<open>\<open>BaseLLMProvider.format_messages\<close>\<close>

definition format_messages :: "Message list \<Rightarrow> string option \<Rightarrow> Message list" where
  "format_messages messages system_prompt =
     (case system_prompt of
        None \<Rightarrow> []
      | Some sp \<Rightarrow> if sp \<noteq> [] then [\<lparr> role = ''system'', content = sp \<rparr>] else [])
     @ messages"

text \<open>\<open>BaseLLMProvider._handle_error\<close>\<close>

definition handle_error :: "adapter \<Rightarrow> py_exception \<Rightarrow> string \<Rightarrow> LLMResponse" where
  "handle_error self e operation =
     \<lparr> r_content = ''I apologize, but I encountered an error processing your request. Please try again.'',
       r_model = model self,
       provider = class_provider_id (cls self),
       tokens_used = None,
       finish_reason = Some ''error'',
       error = Some (operation @ '' failed: '' @ str_of e) \<rparr>"

text \<open>
  The bodies of the \<open>try\<close> blocks of the four \<open>generate_response\<close> methods, in the
  order of the source. Every place where the Python raises is an \<open>Inl\<close>: a client
  call, and \<open>choices[0]\<close>, \<open>content[0]\<close> and \<open>messages[-1]\<close> on an empty list, which
  raise the \<open>IndexError\<close> with the text \<open>list index out of range\<close>.
\<close>

definition index_error :: py_exception where
  "index_error = PyException ''list index out of range''"

definition openai_try ::
  "string \<Rightarrow> openai_client \<Rightarrow> Message list \<Rightarrow> string option \<Rightarrow> py_exception + LLMResponse" where
  "openai_try mdl client messages system_prompt =
     (case client mdl (format_messages messages system_prompt) of
        Inl e \<Rightarrow> Inl e
      | Inr response \<Rightarrow>
          (case choices response of
             [] \<Rightarrow> Inl index_error
           | c # _ \<Rightarrow>
               Inr \<lparr> r_content = message_content c, r_model = mdl,
                     provider = ''openai'', tokens_used = usage_total_tokens response,
                     finish_reason = choice_finish_reason c, error = None \<rparr>))"

definition claude_try ::
  "string \<Rightarrow> anthropic_client \<Rightarrow> Message list \<Rightarrow> string option \<Rightarrow> py_exception + LLMResponse" where
  "claude_try mdl client messages system_prompt =
     (case client mdl (case system_prompt of None \<Rightarrow> [] | Some sp \<Rightarrow> sp) messages of
        Inl e \<Rightarrow> Inl e
      | Inr response \<Rightarrow>
          (case content_texts response of
             [] \<Rightarrow> Inl index_error
           | text # _ \<Rightarrow>
               Inr \<lparr> r_content = text, r_model = mdl,
                     provider = ''claude'',
                     tokens_used = Some (input_tokens response + output_tokens response),
                     finish_reason = stop_reason response, error = None \<rparr>))"

text \<open>
  Gemini: the history is built from \<open>messages[:-1]\<close>, then \<open>start_chat\<close> is called,
  and only then \<open>messages[-1]\<close> is read for \<open>send_message\<close>.
\<close>

definition gemini_history :: "Message list \<Rightarrow> (string \<times> string) list" where
  "gemini_history messages =
     map (\<lambda>msg. (if role msg = ''user'' then ''user'' else ''model'', content msg))
         (butlast messages)"

definition gemini_try ::
  "string \<Rightarrow> gemini_model \<Rightarrow> Message list \<Rightarrow> string option \<Rightarrow> py_exception + LLMResponse" where
  "gemini_try mdl client messages system_prompt =
     (case client (gemini_history messages) of
        Inl e \<Rightarrow> Inl e
      | Inr chat \<Rightarrow>
          if messages = [] then Inl index_error
          else
            (case chat (content (last messages)) of
               Inl e \<Rightarrow> Inl e
             | Inr text \<Rightarrow>
                 Inr \<lparr> r_content = text, r_model = mdl,
                       provider = ''gemini'', tokens_used = None,
                       finish_reason = Some ''stop'', error = None \<rparr>))"

definition huggingface_try ::
  "string \<Rightarrow> hf_client \<Rightarrow> Message list \<Rightarrow> string option \<Rightarrow> py_exception + LLMResponse" where
  "huggingface_try mdl client messages system_prompt =
     (case client (format_messages messages system_prompt) mdl of
        Inl e \<Rightarrow> Inl e
      | Inr response \<Rightarrow>
          (case hf_choices response of
             [] \<Rightarrow> Inl index_error
           | c # _ \<Rightarrow>
               Inr \<lparr> r_content = message_content c, r_model = mdl,
                     provider = ''huggingface'', tokens_used = None,
                     finish_reason = choice_finish_reason c, error = None \<rparr>))"

fun try_body :: "adapter \<Rightarrow> Message list \<Rightarrow> string option \<Rightarrow> py_exception + LLMResponse" where
  "try_body (OpenAI mdl c) messages system_prompt = openai_try mdl c messages system_prompt"
| "try_body (Claude mdl c) messages system_prompt = claude_try mdl c messages system_prompt"
| "try_body (Gemini mdl c) messages system_prompt = gemini_try mdl c messages system_prompt"
| "try_body (HuggingFace mdl c) messages system_prompt =
     huggingface_try mdl c messages system_prompt"

text \<open>
  \<open>generate_response\<close> of each provider class:
  \<open>try: ... except Exception as e: return self._handle_error(e, "generate_response")\<close>.
\<close>

definition generate_response :: "adapter \<Rightarrow> Message list \<Rightarrow> string option \<Rightarrow> LLMResponse" where
  "generate_response self messages system_prompt =
     (case try_body self messages system_prompt of
        Inl e \<Rightarrow> handle_error self e ''generate_response''
      | Inr response \<Rightarrow> response)"

section \<open>The registry built at start-up (\<open>LLMFactory._initialize_providers\<close>)\<close>

text \<open>
  \<open>ProviderConfig\<close> of src/config.py, the fields the factory reads apart from the
  sampling parameters.
\<close>

record ProviderConfig =
  enabled :: bool
  pc_model :: string
  api_key_env :: string

text \<open>
  The process environment: \<open>os.getenv\<close>, and the constructors of the SDK clients,
  each of which may raise: \<open>openai.OpenAI(api_key)\<close>, \<open>anthropic.Anthropic(api_key)\<close>,
  \<open>genai.configure(api_key)\<close> followed by \<open>genai.GenerativeModel(model)\<close>, and
  \<open>InferenceClient(token)\<close>.
\<close>

record environment =
  getenv :: "string \<rightharpoonup> string"
  new_openai :: "string \<Rightarrow> py_exception + openai_client"
  new_anthropic :: "string \<Rightarrow> py_exception + anthropic_client"
  new_gemini :: "string \<Rightarrow> string \<Rightarrow> py_exception + gemini_model"
  new_huggingface :: "string \<Rightarrow> py_exception + hf_client"

text \<open>
  \<open>provider_class(api_key=..., model=..., ...)\<close>: \<open>BaseLLMProvider.__init__\<close> stores the
  fields and calls the \<open>validate_config\<close> of the class, which raises a \<open>ValueError\<close> for
  an empty key and otherwise builds the client.
\<close>

fun construct ::
  "environment \<Rightarrow> provider_class \<Rightarrow> string \<Rightarrow> string \<Rightarrow> py_exception + adapter" where
  "construct env OpenAIProvider api_key mdl =
     (if api_key = [] then Inl (PyException ''OpenAI API key is required'')
      else (case new_openai env api_key of Inl e \<Rightarrow> Inl e | Inr c \<Rightarrow> Inr (OpenAI mdl c)))"
| "construct env ClaudeProvider api_key mdl =
     (if api_key = [] then Inl (PyException ''Anthropic API key is required'')
      else (case new_anthropic env api_key of Inl e \<Rightarrow> Inl e | Inr c \<Rightarrow> Inr (Claude mdl c)))"
| "construct env GeminiProvider api_key mdl =
     (if api_key = [] then Inl (PyException ''Google API key is required'')
      else (case new_gemini env api_key mdl of Inl e \<Rightarrow> Inl e | Inr c \<Rightarrow> Inr (Gemini mdl c)))"
| "construct env HuggingFaceProvider api_key mdl =
     (if api_key = [] then Inl (PyException ''HuggingFace token is required'')
      else (case new_huggingface env api_key of
              Inl e \<Rightarrow> Inl e
            | Inr c \<Rightarrow> Inr (HuggingFace mdl c)))"

text \<open>
  One round of the loop of \<open>_initialize_providers\<close>: a disabled provider, one without
  an API key, one whose name is not in \<open>PROVIDERS\<close> and one whose construction raises
  are skipped; otherwise the instance is stored under the configured name.
\<close>

definition initialize_one ::
  "environment \<Rightarrow> string \<Rightarrow> ProviderConfig \<Rightarrow> (string \<rightharpoonup> adapter) \<Rightarrow> (string \<rightharpoonup> adapter)" where
  "initialize_one env provider_name provider_config registry =
     (if \<not> enabled provider_config then registry
      else
        (case getenv env (api_key_env provider_config) of
           None \<Rightarrow> registry
         | Some api_key \<Rightarrow>
             if api_key = [] then registry
             else
               (case PROVIDERS provider_name of
                  None \<Rightarrow> registry
                | Some provider_class \<Rightarrow>
                    (case construct env provider_class api_key (pc_model provider_config) of
                       Inl e \<Rightarrow> registry
                     | Inr new_provider \<Rightarrow>
                         registry(provider_name \<mapsto> new_provider)))))"

fun initialize_providers ::
  "environment \<Rightarrow> (string \<times> ProviderConfig) list \<Rightarrow> (string \<rightharpoonup> adapter) \<Rightarrow> (string \<rightharpoonup> adapter)" where
  "initialize_providers env [] registry = registry"
| "initialize_providers env ((provider_name, provider_config) # rest) registry =
     initialize_providers env rest (initialize_one env provider_name provider_config registry)"

text \<open>What the orchestrator calls on a registered adapter.\<close>

definition adapter_call :: "adapter \<Rightarrow> provider_call" where
  "adapter_call a = (\<lambda>messages system_prompt. Inr (generate_response a messages system_prompt))"

text \<open>\<open>LLMFactory.__init__\<close>: the configuration and the registry of the enabled providers.\<close>

definition new_factory ::
  "environment \<Rightarrow> LLMConfig \<Rightarrow> (string \<times> ProviderConfig) list \<Rightarrow> LLMFactory" where
  "new_factory env cfg provider_configs =
     \<lparr> llm = cfg,
       providers =
         (\<lambda>name. map_option adapter_call
                   (initialize_providers env provider_configs Map.empty name)) \<rparr>"

text \<open>\<open>get_default_provider\<close>, \<open>get_provider\<close> and \<open>get_available_providers\<close> (as a test).\<close>

definition get_default_provider :: "LLMFactory \<Rightarrow> provider_call option" where
  "get_default_provider f = providers f (default_provider (llm f))"

definition get_provider :: "LLMFactory \<Rightarrow> string option \<Rightarrow> provider_call option" where
  "get_provider f name =
     (case name of None \<Rightarrow> get_default_provider f | Some n \<Rightarrow> providers f n)"

definition available :: "LLMFactory \<Rightarrow> string \<Rightarrow> bool" where
  "available f name = (providers f name \<noteq> None)"

section \<open>The retrieval service (src/vector_db/retriever.py)\<close>

text \<open>A langchain \<open>Document\<close>: \<open>page_content\<close> and the \<open>metadata\<close> dictionary.\<close>

record Document =
  page_content :: string
  metadata :: "string \<rightharpoonup> string"

text \<open>The dictionary \<open>{"title": ..., "url": ..., "content": ...}\<close> of one source.\<close>

record Source =
  title :: string
  url :: string
  src_content :: string

text \<open>The dictionary \<open>{"context": ..., "sources": ...}\<close> that \<open>retrieve_context\<close> returns.\<close>

record context_data =
  context_text :: string
  sources :: "Source list"

text \<open>\<open>str(i)\<close> of a natural number, in decimal.\<close>

fun str_nat :: "nat \<Rightarrow> string" where
  "str_nat n =
     (if n < 10 then [char_of (48 + n)]
      else str_nat (n div 10) @ [char_of (48 + n mod 10)])"

declare str_nat.simps [simp del]

text \<open>\<open>sep.join(parts)\<close>\<close>

fun join :: "string \<Rightarrow> string list \<Rightarrow> string" where
  "join sep [] = []"
| "join sep [x] = x"
| "join sep (x # y # ys) = x @ sep @ join sep (y # ys)"

text \<open>\<open>doc.metadata.get(key, default)\<close>\<close>

definition metadata_get :: "Document \<Rightarrow> string \<Rightarrow> string \<Rightarrow> string" where
  "metadata_get doc key dflt = (case metadata doc key of None \<Rightarrow> dflt | Some v \<Rightarrow> v)"

text \<open>
  Lines 42-54: the loop \<open>for i, doc in enumerate(results, 1)\<close> with its two
  accumulators \<open>context_parts\<close> and \<open>sources\<close>.
\<close>

fun context_loop ::
  "nat \<Rightarrow> Document list \<Rightarrow> string list \<Rightarrow> Source list \<Rightarrow> string list \<times> Source list" where
  "context_loop i [] context_parts srcs = (context_parts, srcs)"
| "context_loop i (doc # rest) context_parts srcs =
     context_loop (i + 1) rest
       (context_parts @ [''['' @ str_nat i @ ''] '' @ page_content doc])
       (srcs @ [\<lparr> title = metadata_get doc ''source'' ''Unknown'',
                   url = metadata_get doc ''url'' ''#'',
                   src_content = take 200 (page_content doc) @ ''...'' \<rparr>])"

text \<open>
  \<open>DocumentRetriever.retrieve_context\<close>. The argument is the outcome of
  \<open>self.vector_store.search(query, k=k)\<close>: an exception or the list of documents. The
  whole body is inside \<open>try: ... except Exception\<close>.
\<close>

definition retrieve_context :: "py_exception + Document list \<Rightarrow> context_data" where
  "retrieve_context search_outcome =
     (case search_outcome of
        Inl e \<Rightarrow> \<lparr> context_text = ''Error retrieving information.'', sources = [] \<rparr>
      | Inr results \<Rightarrow>
          if results = [] then \<lparr> context_text = ''No relevant information found.'', sources = [] \<rparr>
          else
            (case context_loop 1 results [] [] of
               (context_parts, srcs) \<Rightarrow>
                 \<lparr> context_text = join [CHR 0x0A, CHR 0x0A] context_parts, sources = srcs \<rparr>))"

text \<open>
  \<open>VectorStore.search\<close> of src/vector_db/store.py, the search the repository plugs in:
  it catches a failure of the index itself and answers with the empty list.
\<close>

definition VectorStore_search :: "py_exception + Document list \<Rightarrow> py_exception + Document list" where
  "VectorStore_search similarity_search_outcome =
     (case similarity_search_outcome of Inl e \<Rightarrow> Inr [] | Inr results \<Rightarrow> Inr results)"

section \<open>The chat endpoints and the session store (src/routers/chat.py)\<close>

text \<open>\<open>ChatMessage\<close>, \<open>ChatRequest\<close> and \<open>ChatResponse\<close> of the router.\<close>

record ChatMessage =
  cm_role :: string
  cm_content :: string

record ChatRequest =
  message :: string
  conversation_history :: "ChatMessage list option"
  req_session_id :: "string option"
  req_provider :: "string option"

record ChatResponse =
  response :: string
  resp_sources :: "Source list"
  session_id :: string
  success :: bool
  provider_used :: string
  resp_tokens_used :: "int option"

text \<open>
  One entry of a session's \<open>history\<close> list (the key \<open>provider\<close> is present on
  assistant entries only), and one value of the module-level dictionary
  \<open>conversations\<close>.
\<close>

record stored_message =
  sm_id :: string
  sm_role :: string
  sm_content :: string
  sm_timestamp :: string
  sm_provider :: "string option"

record session =
  created_at :: string
  history :: "stored_message list"
  message_count :: nat

type_synonym conversations = "string \<rightharpoonup> session"

datatype HTTPException = HTTPException (status_code: nat) (detail: string)

text \<open>\<open>get_history\<close>: the state is only read.\<close>

definition get_history :: "conversations \<Rightarrow> string \<Rightarrow> HTTPException + session" where
  "get_history convs sid =
     (case convs sid of
        None \<Rightarrow> Inl (HTTPException 404 ''Session not found'')
      | Some s \<Rightarrow> Inr s)"

text \<open>\<open>delete_history\<close>: the answer and the dictionary afterwards.\<close>

definition delete_history :: "conversations \<Rightarrow> string \<Rightarrow> (HTTPException + string) \<times> conversations" where
  "delete_history convs sid =
     (if convs sid \<noteq> None
      then (Inr ''History deleted successfully'', convs(sid := None))
      else (Inl (HTTPException 404 ''Session not found''), convs))"

text \<open>
  \<open>xs[-n:]\<close> for \<open>n > 0\<close>: the last \<open>n\<close> elements, the whole list when it is shorter.
\<close>

definition last_n :: "nat \<Rightarrow> 'a list \<Rightarrow> 'a list" where
  "last_n n xs = (if length xs \<le> n then xs else drop (length xs - n) xs)"

text \<open>
  Lines 87-93 of \<open>chat\<close> and lines 174-178 of \<open>chat_stream\<close>: the history part of
  \<open>messages\<close>. An absent or empty history adds nothing.
\<close>

definition history_messages :: "ChatMessage list option \<Rightarrow> Message list" where
  "history_messages hist =
     (case hist of
        None \<Rightarrow> []
      | Some h \<Rightarrow>
          if h = [] then []
          else map (\<lambda>msg. \<lparr> role = cm_role msg, content = cm_content msg \<rparr>) (last_n 6 h))"

text \<open>The two f-strings that put the retrieved context in front of the question.\<close>

definition chat_user_prompt :: "string \<Rightarrow> string \<Rightarrow> string" where
  "chat_user_prompt ctx msg =
     ''Context information:'' @ [CHR 0x0A] @ ctx @ [CHR 0x0A, CHR 0x0A]
     @ ''Based on the above context, please answer the following question:''
     @ [CHR 0x0A, CHR 0x0A] @ ''Question: '' @ msg @ [CHR 0x0A, CHR 0x0A] @ ''Answer:''"

definition stream_user_prompt :: "string \<Rightarrow> string \<Rightarrow> string" where
  "stream_user_prompt ctx msg =
     ''Context: '' @ ctx @ [CHR 0x0A, CHR 0x0A] @ ''Question: '' @ msg
     @ [CHR 0x0A, CHR 0x0A] @ ''Answer:''"

text \<open>Lines 87-105: the list \<open>messages\<close> that \<open>chat\<close> hands to the factory.\<close>

definition chat_messages :: "ChatRequest \<Rightarrow> context_data \<Rightarrow> Message list" where
  "chat_messages request cd =
     history_messages (conversation_history request)
     @ [\<lparr> role = ''user'', content = chat_user_prompt (context_text cd) (message request) \<rparr>]"

text \<open>Lines 174-185: the list \<open>messages\<close> that \<open>chat_stream\<close> hands to the provider.\<close>

definition stream_messages :: "ChatRequest \<Rightarrow> context_data \<Rightarrow> Message list" where
  "stream_messages request cd =
     history_messages (conversation_history request)
     @ [\<lparr> role = ''user'', content = stream_user_prompt (context_text cd) (message request) \<rparr>]"

text \<open>
  What a request handler takes from outside: the verdict of \<open>ChatMessageValidator\<close>
  (pydantic; \<open>None\<close> when it accepts), the random identifiers, the clock readings, the
  outcome of \<open>get_llm_factory()\<close>, the outcome of \<open>DocumentRetriever()\<close> (on success
  the search of its vector store for a query, with \<open>k = 4\<close>), the outcome of
  \<open>get_config().system_prompt\<close>, the verdict of pydantic on the construction of
  \<open>ChatResponse(...)\<close> with its \<open>Source(**src)\<close> (\<open>None\<close> when it accepts), and for
  \<open>chat_stream\<close> the fragments a named provider's \<open>stream_response\<close> yields, possibly
  ended by an exception.
\<close>

record chat_env =
  validator :: "string \<Rightarrow> string option \<Rightarrow> py_exception option"
  new_session_id :: string
  user_msg_id :: string
  assistant_msg_id :: string
  now_created :: string
  now_user :: string
  now_assistant :: string
  get_llm_factory :: "py_exception + LLMFactory"
  new_retriever :: "py_exception + (string \<Rightarrow> py_exception + Document list)"
  get_system_prompt :: "py_exception + string"
  response_model :: "ChatResponse \<Rightarrow> py_exception option"
  stream_response :: "string \<Rightarrow> Message list \<Rightarrow> string option \<Rightarrow> string list \<times> py_exception option"

text \<open>
  \<open>request.session_id or f"session_{...}"\<close>: an absent or empty id gives a fresh one.
\<close>

definition session_id_of :: "chat_env \<Rightarrow> ChatRequest \<Rightarrow> string" where
  "session_id_of env request =
     (case req_session_id request of
        None \<Rightarrow> new_session_id env
      | Some s \<Rightarrow> if s = [] then new_session_id env else s)"

text \<open>Lines 73-78: the session is created on first reference.\<close>

definition ensure_session :: "chat_env \<Rightarrow> string \<Rightarrow> conversations \<Rightarrow> conversations" where
  "ensure_session env sid convs =
     (if convs sid = None
      then convs(sid \<mapsto> \<lparr> created_at = now_created env, history = [], message_count = 0 \<rparr>)
      else convs)"

text \<open>Lines 117-133: the two entries are appended and the counter is incremented.\<close>

definition store_turn ::
  "chat_env \<Rightarrow> string \<Rightarrow> ChatRequest \<Rightarrow> LLMResponse \<Rightarrow> conversations \<Rightarrow> conversations" where
  "store_turn env sid request llm_response convs =
     (case convs sid of
        None \<Rightarrow> convs
      | Some s \<Rightarrow>
          convs(sid \<mapsto>
            s\<lparr> history := history s @
                  [\<lparr> sm_id = user_msg_id env, sm_role = ''user'',
                     sm_content = message request, sm_timestamp = now_user env,
                     sm_provider = None \<rparr>,
                   \<lparr> sm_id = assistant_msg_id env, sm_role = ''assistant'',
                     sm_content = r_content llm_response, sm_timestamp = now_assistant env,
                     sm_provider = Some (provider llm_response) \<rparr>],
               message_count := message_count s + 1 \<rparr>))"

text \<open>\<open>except Exception as e: raise HTTPException(status_code=500, detail=str(e))\<close>\<close>

definition internal_error :: "py_exception \<Rightarrow> HTTPException" where
  "internal_error e = HTTPException 500 (str_of e)"

text \<open>
  The handler \<open>chat\<close>: the answer and the dictionary \<open>conversations\<close> afterwards. The
  whole body is inside \<open>try: ... except Exception\<close>, which answers with status 500. The
  steps are in the order of the source: the validator runs before anything is
  written; the session is created; then \<open>get_llm_factory()\<close>, \<open>DocumentRetriever()\<close>
  and \<open>get_config()\<close> may each raise, with the new session already in the store; the
  turn is stored; and the construction of \<open>ChatResponse\<close> may raise with the turn
  already stored. The clean-up of old sessions is queued as a background task that
  runs after the answer and is not part of the handler.
\<close>

definition chat ::
  "chat_env \<Rightarrow> ChatRequest \<Rightarrow> conversations \<Rightarrow> (HTTPException + ChatResponse) \<times> conversations" where
  "chat env request convs =
     (case validator env (message request) (req_session_id request) of
        Some e \<Rightarrow> (Inl (internal_error e), convs)
      | None \<Rightarrow>
          (let sid = session_id_of env request;
               convs1 = ensure_session env sid convs
           in case get_llm_factory env of
                Inl e \<Rightarrow> (Inl (internal_error e), convs1)
              | Inr factory \<Rightarrow>
                  (case new_retriever env of
                     Inl e \<Rightarrow> (Inl (internal_error e), convs1)
                   | Inr search \<Rightarrow>
                       (let cd = retrieve_context (search (message request));
                            messages = chat_messages request cd
                        in case get_system_prompt env of
                             Inl e \<Rightarrow> (Inl (internal_error e), convs1)
                           | Inr sp \<Rightarrow>
                               (let llm_response =
                                      generate_with_fallback factory messages (Some sp)
                                        (req_provider request);
                                    convs2 = store_turn env sid request llm_response convs1;
                                    resp =
                                      \<lparr> response = r_content llm_response,
                                        resp_sources = sources cd,
                                        session_id = sid,
                                        success = (finish_reason llm_response \<noteq> Some ''error''),
                                        provider_used = provider llm_response,
                                        resp_tokens_used = tokens_used llm_response \<rparr>
                                in case response_model env resp of
                                     Some e \<Rightarrow> (Inl (internal_error e), convs2)
                                   | None \<Rightarrow> (Inr resp, convs2))))))"

text \<open>
  Line 189 of \<open>chat_stream\<close>: the provider is the requested one when a name is given
  and the configured default otherwise.
\<close>

definition stream_provider_name :: "LLMFactory \<Rightarrow> ChatRequest \<Rightarrow> string" where
  "stream_provider_name factory request =
     (case req_provider request of
        None \<Rightarrow> default_provider (llm factory)
      | Some p \<Rightarrow> if p = [] then default_provider (llm factory) else p)"

text \<open>One server-sent event, and the event of the inner \<open>except\<close> of \<open>generate()\<close>.\<close>

definition sse :: "string \<Rightarrow> string" where
  "sse payload = ''data: '' @ payload @ [CHR 0x0A, CHR 0x0A]"

definition error_event :: "py_exception \<Rightarrow> string" where
  "error_event e = sse (''Error: '' @ str_of e)"

text \<open>
  The generator \<open>generate()\<close> of \<open>chat_stream\<close>: the events it yields, in order. Its
  body is inside its own \<open>try: ... except Exception\<close>, which yields one error event.
\<close>

definition generate :: "chat_env \<Rightarrow> ChatRequest \<Rightarrow> string list" where
  "generate env request =
     (case new_retriever env of
        Inl e \<Rightarrow> [error_event e]
      | Inr search \<Rightarrow>
          (let cd = retrieve_context (search (message request));
               messages = stream_messages request cd
           in case get_llm_factory env of
                Inl e \<Rightarrow> [error_event e]
              | Inr factory \<Rightarrow>
                  (let name = stream_provider_name factory request
                   in if providers factory name = None
                      then [sse ''Error: No provider available'']
                      else
                        (case get_system_prompt env of
                           Inl e \<Rightarrow> [error_event e]
                         | Inr sp \<Rightarrow>
                             (case stream_response env name messages (Some sp) of
                                (tokens, raised) \<Rightarrow>
                                  map sse tokens
                                  @ [case raised of
                                       None \<Rightarrow> sse ''[DONE]''
                                     | Some e \<Rightarrow> error_event e])))))"

text \<open>
  The handler \<open>chat_stream\<close>: status 500 when the validator rejects, otherwise the
  streaming response over \<open>generate()\<close>. The session store is not touched.
\<close>

definition chat_stream :: "chat_env \<Rightarrow> ChatRequest \<Rightarrow> HTTPException + string list" where
  "chat_stream env request =
     (case validator env (message request) (req_session_id request) of
        Some e \<Rightarrow> Inl (internal_error e)
      | None \<Rightarrow> Inr (generate env request))"

section \<open>Notions used to state the properties\<close>

text \<open>
  The outcome of calling one candidate, whether it counts as failed for the
  orchestrator, and the error the orchestrator records for it.
\<close>

definition candidate_outcome ::
  "LLMFactory \<Rightarrow> Message list \<Rightarrow> string option \<Rightarrow> string \<Rightarrow> py_exception + LLMResponse" where
  "candidate_outcome f messages sp name =
     (case providers f name of
        None \<Rightarrow> Inl (PyException ([CHR 0x27] @ name @ [CHR 0x27]))
      | Some p \<Rightarrow> p messages sp)"

definition candidate_fails :: "LLMFactory \<Rightarrow> Message list \<Rightarrow> string option \<Rightarrow> string \<Rightarrow> bool" where
  "candidate_fails f messages sp name =
     (case candidate_outcome f messages sp name of
        Inl e \<Rightarrow> True
      | Inr r \<Rightarrow> finish_reason r = Some ''error'')"

definition recorded_error :: "LLMFactory \<Rightarrow> Message list \<Rightarrow> string option \<Rightarrow> string \<Rightarrow> string option" where
  "recorded_error f messages sp name =
     (case candidate_outcome f messages sp name of
        Inl e \<Rightarrow> Some (str_of e)
      | Inr r \<Rightarrow> error r)"

definition last_error_of :: "LLMFactory \<Rightarrow> Message list \<Rightarrow> string option \<Rightarrow> string list \<Rightarrow> string option" where
  "last_error_of f messages sp failed =
     (if failed = [] then None else recorded_error f messages sp (last failed))"

text \<open>
  The wording of the specification for the candidate order: the configured order
  with every later duplicate removed (\<open>dedup_first\<close> keeps first occurrences), restricted
  to the available providers, after the preferred provider.
\<close>

fun dedup_seen :: "'a list \<Rightarrow> 'a list \<Rightarrow> 'a list" where
  "dedup_seen seen [] = []"
| "dedup_seen seen (x # xs) =
     (if x \<in> set seen then dedup_seen seen xs else x # dedup_seen (x # seen) xs)"

definition dedup_first :: "'a list \<Rightarrow> 'a list" where
  "dedup_first xs = dedup_seen [] xs"

definition spec_candidate_order :: "LLMFactory \<Rightarrow> string option \<Rightarrow> string list" where
  "spec_candidate_order f preferred =
     (let first = (case preferred of
                     None \<Rightarrow> []
                   | Some p \<Rightarrow> if p \<noteq> [] \<and> available f p then [p] else [])
      in first @ filter (\<lambda>n. available f n \<and> n \<notin> set first)
                        (dedup_first (fallback_order (llm f))))"

text \<open>
  A small registry for the concrete instances: provider \<open>A\<close> raises, provider \<open>B\<close>
  answers with an error result, provider \<open>C\<close> answers.
\<close>

definition ok_response :: "string \<Rightarrow> LLMResponse" where
  "ok_response name =
     \<lparr> r_content = ''hello'', r_model = ''m'', provider = name, tokens_used = None,
       finish_reason = Some ''stop'', error = None \<rparr>"

definition err_response :: "string \<Rightarrow> LLMResponse" where
  "err_response name =
     \<lparr> r_content = ''sorry'', r_model = ''m'', provider = name, tokens_used = None,
       finish_reason = Some ''error'', error = Some ''boom'' \<rparr>"

definition example_factory :: LLMFactory where
  "example_factory =
     \<lparr> llm = \<lparr> default_provider = ''C'', enable_fallback = True,
               fallback_order = [''A'', ''B'', ''C''] \<rparr>,
       providers =
         [''A'' \<mapsto> (\<lambda>m s. Inl (PyException ''timeout'')),
          ''B'' \<mapsto> (\<lambda>m s. Inr (err_response ''B'')),
          ''C'' \<mapsto> (\<lambda>m s. Inr (ok_response ''C''))] \<rparr>"

definition failing_factory :: LLMFactory where
  "failing_factory =
     example_factory\<lparr> llm := (llm example_factory)\<lparr> fallback_order := [''B'', ''A''] \<rparr> \<rparr>"

definition no_fallback_factory :: LLMFactory where
  "no_fallback_factory =
     example_factory\<lparr> llm := (llm example_factory)\<lparr> enable_fallback := False \<rparr> \<rparr>"

text \<open>
  The result the specification describes for a failed generation: \<open>finish_reason\<close>
  \<open>error\<close>, the diagnostic text in \<open>error\<close>, the generic apology as content.
\<close>

definition failure_result :: "string \<Rightarrow> string \<Rightarrow> string \<Rightarrow> LLMResponse" where
  "failure_result mdl provider_id diagnostic =
     \<lparr> r_content = ''I apologize, but I encountered an error processing your request. Please try again.'',
       r_model = mdl,
       provider = provider_id,
       tokens_used = None,
       finish_reason = Some ''error'',
       error = Some (''generate_response failed: '' @ diagnostic) \<rparr>"

text \<open>
  Clients, adapters and a start-up environment for the concrete instances: the OpenAI
  client and the Gemini client refuse every call, one Claude client answers and
  another answers with no content block, the HuggingFace client cannot be built, and
  no key is set for Gemini.
\<close>

definition refusing_openai :: openai_client where
  "refusing_openai mdl msgs = Inl (PyException ''connection refused'')"

definition answering_anthropic :: anthropic_client where
  "answering_anthropic mdl sys msgs =
     Inr \<lparr> content_texts = [''hi''], input_tokens = 3, output_tokens = 4,
           stop_reason = Some ''end_turn'' \<rparr>"

definition empty_anthropic :: anthropic_client where
  "empty_anthropic mdl sys msgs =
     Inr \<lparr> content_texts = [], input_tokens = 3, output_tokens = 0,
           stop_reason = Some ''end_turn'' \<rparr>"

definition refusing_gemini :: gemini_model where
  "refusing_gemini hist = Inl (PyException ''connection refused'')"

definition example_env :: environment where
  "example_env =
     \<lparr> getenv = [''OPENAI_API_KEY'' \<mapsto> ''k1'', ''ANTHROPIC_API_KEY'' \<mapsto> ''k2''],
       new_openai = (\<lambda>api_key. Inr refusing_openai),
       new_anthropic = (\<lambda>api_key. Inr answering_anthropic),
       new_gemini = (\<lambda>api_key mdl. Inr refusing_gemini),
       new_huggingface = (\<lambda>api_key. Inl (PyException ''no network'')) \<rparr>"

definition example_provider_configs :: "(string \<times> ProviderConfig) list" where
  "example_provider_configs =
     [(''openai'', \<lparr> enabled = True, pc_model = ''gpt'', api_key_env = ''OPENAI_API_KEY'' \<rparr>),
      (''claude'', \<lparr> enabled = True, pc_model = ''sonnet'', api_key_env = ''ANTHROPIC_API_KEY'' \<rparr>),
      (''gemini'', \<lparr> enabled = True, pc_model = ''pro'', api_key_env = ''GOOGLE_API_KEY'' \<rparr>)]"

definition example_llm_config :: LLMConfig where
  "example_llm_config =
     \<lparr> default_provider = ''openai'', enable_fallback = True,
       fallback_order = [''openai'', ''claude'', ''gemini''] \<rparr>"

definition openai_adapter :: adapter where
  "openai_adapter = OpenAI ''gpt'' refusing_openai"

definition claude_adapter :: adapter where
  "claude_adapter = Claude ''sonnet'' answering_anthropic"

text \<open>
  The wording of the specification for the excerpt of a source: the passage text cut
  to the preview length, with the ellipsis marker appended when it was cut.
\<close>

definition spec_excerpt :: "string \<Rightarrow> string" where
  "spec_excerpt text = (if 200 < length text then take 200 text @ ''...'' else text)"

text \<open>The history the session store holds for an id; nothing for an unknown id.\<close>

definition stored_history :: "conversations \<Rightarrow> string \<Rightarrow> stored_message list" where
  "stored_history convs sid = (case convs sid of None \<Rightarrow> [] | Some s \<Rightarrow> history s)"

text \<open>Two passages, a stored session and a chat request for the concrete instances.\<close>

definition refund_doc :: Document where
  "refund_doc =
     \<lparr> page_content = ''Refunds are processed within 5 business days.'',
       metadata = [''source'' \<mapsto> ''policy.md''] \<rparr>"

definition short_doc :: Document where
  "short_doc = \<lparr> page_content = ''abc'', metadata = Map.empty \<rparr>"

definition example_session :: session where
  "example_session = \<lparr> created_at = ''2024-01-01T00:00:00'', history = [], message_count = 0 \<rparr>"

definition turn :: "string \<Rightarrow> string \<Rightarrow> ChatMessage" where
  "turn r c = \<lparr> cm_role = r, cm_content = c \<rparr>"

definition long_history :: "ChatMessage list" where
  "long_history =
     [turn ''user'' ''q1'', turn ''assistant'' ''a1'', turn ''user'' ''q2'',
      turn ''assistant'' ''a2'', turn ''user'' ''q3'', turn ''assistant'' ''a3'',
      turn ''user'' ''q4'', turn ''assistant'' ''a4'']"

definition long_request :: ChatRequest where
  "long_request =
     \<lparr> message = ''q5'', conversation_history = Some long_history,
       req_session_id = Some ''s1'', req_provider = None \<rparr>"

definition example_chat_env :: chat_env where
  "example_chat_env =
     \<lparr> validator = (\<lambda>msg sid. None),
       new_session_id = ''session_0123456789ab'',
       user_msg_id = ''msg_00000001'',
       assistant_msg_id = ''msg_00000002'',
       now_created = ''2024-01-01T00:00:00'',
       now_user = ''2024-01-01T00:00:01'',
       now_assistant = ''2024-01-01T00:00:02'',
       get_llm_factory = Inr example_factory,
       new_retriever = Inr (\<lambda>q. Inr []),
       get_system_prompt = Inr ''You are a helpful assistant.'',
       response_model = (\<lambda>resp. None),
       stream_response = (\<lambda>name msgs sp. ([''Hel'', ''lo''], None)) \<rparr>"

section \<open>Properties of the fallback orchestrator\<close>

lemma fallback_loop_dom:
  "set acc \<subseteq> dom (providers f) \<Longrightarrow> set (fallback_loop f ns acc) \<subseteq> dom (providers f)"
proof (induction ns arbitrary: acc)
  case Nil
  then show ?case by simp
next
  case (Cons n ns)
  let ?acc = "if n \<notin> set acc \<and> providers f n \<noteq> None then acc @ [n] else acc"
  have "set ?acc \<subseteq> dom (providers f)" using Cons.prems by auto
  from Cons.IH[OF this] show ?case by simp
qed

lemma preferred_first_dom: "set (preferred_first f pp) \<subseteq> dom (providers f)"
  by (auto simp: preferred_first_def split: option.splits if_splits)

lemma providers_to_try_dom: "set (providers_to_try f pp) \<subseteq> dom (providers f)"
  unfolding providers_to_try_def Let_def
  using fallback_loop_dom[OF preferred_first_dom] preferred_first_dom by simp

lemma try_providers_failed_prefix:
  "\<forall>c\<in>set failed. candidate_fails f m sp c \<and> providers f c \<noteq> None \<Longrightarrow>
   try_providers f m sp (failed @ rest) le tried =
   try_providers f m sp rest
     (if failed = [] then le else recorded_error f m sp (last failed)) (tried @ failed)"
proof (induction failed arbitrary: le tried)
  case Nil
  then show ?case by simp
next
  case (Cons c cs)
  from Cons.prems obtain p where p: "providers f c = Some p" by auto
  from Cons.prems have fails: "candidate_fails f m sp c" by simp
  have rest: "\<forall>c\<in>set cs. candidate_fails f m sp c \<and> providers f c \<noteq> None"
    using Cons.prems by simp
  show ?case
  proof (cases "p m sp")
    case (Inl e)
    then show ?thesis
      using p Cons.IH[OF rest] by (simp add: recorded_error_def candidate_outcome_def)
  next
    case (Inr r)
    with fails p have "finish_reason r = Some ''error''"
      by (simp add: candidate_fails_def candidate_outcome_def)
    then show ?thesis
      using p Inr Cons.IH[OF rest] by (simp add: recorded_error_def candidate_outcome_def)
  qed
qed

lemma dedup_seen_set: "set (dedup_seen seen xs) = set xs - set seen"
  by (induction xs arbitrary: seen) auto

lemma dedup_seen_disjoint: "set (dedup_seen seen xs) \<inter> set seen = {}"
  by (auto simp: dedup_seen_set)

lemma dedup_seen_distinct: "distinct (dedup_seen seen xs)"
  by (induction xs arbitrary: seen) (auto simp: dedup_seen_set)

lemma fallback_loop_spec:
  "\<forall>n\<in>set seen. providers f n = None \<or> n \<in> set acc \<Longrightarrow>
   fallback_loop f ns acc =
   acc @ filter (\<lambda>n. available f n \<and> n \<notin> set acc) (dedup_seen seen ns)"
proof (induction ns arbitrary: acc seen)
  case Nil
  then show ?case by simp
next
  case (Cons x xs)
  show ?case
  proof (cases "x \<in> set seen")
    case True
    with Cons.prems have "providers f x = None \<or> x \<in> set acc" by blast
    then show ?thesis using True Cons.IH[OF Cons.prems] by auto
  next
    case False
    show ?thesis
    proof (cases "x \<notin> set acc \<and> providers f x \<noteq> None")
      case True
      have inv: "\<forall>n\<in>set (x # seen). providers f n = None \<or> n \<in> set (acc @ [x])"
        using Cons.prems by auto
      have notin: "x \<notin> set (dedup_seen (x # seen) xs)"
        using dedup_seen_disjoint[of "x # seen" xs] by auto
      have "filter (\<lambda>n. available f n \<and> n \<notin> set (acc @ [x])) (dedup_seen (x # seen) xs)
            = filter (\<lambda>n. available f n \<and> n \<notin> set acc) (dedup_seen (x # seen) xs)"
        using notin by (intro filter_cong) auto
      then show ?thesis
        using True False Cons.IH[OF inv] by (simp add: available_def)
    next
      case no: False
      have inv: "\<forall>n\<in>set (x # seen). providers f n = None \<or> n \<in> set acc"
        using Cons.prems no by auto
      show ?thesis using no False Cons.IH[OF inv] by (auto simp: available_def)
    qed
  qed
qed

text \<open>
  Claim C1. The candidates are tried strictly in order: when the candidate list is
  \<open>failed @ name # rest\<close>, every candidate in \<open>failed\<close> raises or answers with an error
  result, and \<open>name\<close> answers with a result whose \<open>finish_reason\<close> is not \<open>error\<close>, then
  exactly \<open>failed @ [name]\<close> are tried, in this order, the function returns the result
  of \<open>name\<close>, and the error recorded last is the one of the last failed candidate.
\<close>

theorem fallback_first_success:
  assumes "providers_to_try f pp = failed @ name # rest"
    and "\<forall>c\<in>set failed. candidate_fails f m sp c"
    and "candidate_outcome f m sp name = Inr r"
    and "finish_reason r \<noteq> Some ''error''"
  shows "try_providers f m sp (providers_to_try f pp) None [] =
           (Some r, last_error_of f m sp failed, failed @ [name])
         \<and> generate_with_fallback_traced f m sp pp = (r, failed @ [name])
         \<and> generate_with_fallback f m sp pp = r"
proof -
  have dom: "set (failed @ name # rest) \<subseteq> dom (providers f)"
    using providers_to_try_dom[of f pp] assms(1) by simp
  then have pre: "\<forall>c\<in>set failed. candidate_fails f m sp c \<and> providers f c \<noteq> None"
    using assms(2) by auto
  from dom obtain p where p: "providers f name = Some p" by auto
  with assms(3) have call: "p m sp = Inr r" by (simp add: candidate_outcome_def)
  have "try_providers f m sp (failed @ name # rest) None [] =
        try_providers f m sp (name # rest) (last_error_of f m sp failed) failed"
    using try_providers_failed_prefix[OF pre, of "name # rest" None "[]"]
    by (simp add: last_error_of_def)
  also have "\<dots> = (Some r, last_error_of f m sp failed, failed @ [name])"
    using p call assms(4) by simp
  finally have loop: "try_providers f m sp (providers_to_try f pp) None [] =
      (Some r, last_error_of f m sp failed, failed @ [name])"
    using assms(1) by simp
  then show ?thesis
    by (simp add: generate_with_fallback_traced_def generate_with_fallback_def)
qed

lemmas ex_simps = example_factory_def ok_response_def err_response_def
  providers_to_try_def preferred_first_def candidate_fails_def candidate_outcome_def
  failing_factory_def no_fallback_factory_def

theorem fallback_first_success_witness:
  "providers_to_try example_factory (Some ''B'') = [''B'', ''A''] @ ''C'' # []
   \<and> candidate_fails example_factory [] None ''B''
   \<and> candidate_fails example_factory [] None ''A''
   \<and> candidate_outcome example_factory [] None ''C'' = Inr (ok_response ''C'')
   \<and> finish_reason (ok_response ''C'') \<noteq> Some ''error''
   \<and> generate_with_fallback_traced example_factory [] None (Some ''B'')
       = (ok_response ''C'', [''B'', ''A'', ''C''])
   \<and> try_providers example_factory [] None [''B'', ''A'', ''C''] None []
       = (Some (ok_response ''C''), Some ''timeout'', [''B'', ''A'', ''C''])"
proof -
  have h1: "providers_to_try example_factory (Some ''B'') = [''B'', ''A''] @ ''C'' # []"
    by (simp add: ex_simps)
  have h2: "\<forall>c\<in>set [''B'', ''A'']. candidate_fails example_factory [] None c"
    by (simp add: ex_simps)
  have h3: "candidate_outcome example_factory [] None ''C'' = Inr (ok_response ''C'')"
    by (simp add: ex_simps)
  have h4: "finish_reason (ok_response ''C'') \<noteq> Some ''error''"
    by (simp add: ex_simps)
  have h5: "last_error_of example_factory [] None [''B'', ''A''] = Some ''timeout''"
    by (simp add: last_error_of_def recorded_error_def ex_simps)
  show ?thesis
    using fallback_first_success[OF h1 h2 h3 h4] h1 h2 h3 h4 h5 by simp
qed

text \<open>
  Claim C2. With fallback enabled the candidate list is the preferred provider (when
  it is specified and available) followed by the configured fallback order without
  duplicates and restricted to the available providers; with preferred \<open>B\<close>, fallback
  order \<open>[A, B, C]\<close> and all three available it is \<open>[B, A, C]\<close>.
\<close>

theorem candidate_order:
  assumes "enable_fallback (llm f)"
  shows "providers_to_try f pp = spec_candidate_order f pp
         \<and> (fallback_order (llm f) = [''A'', ''B'', ''C'']
              \<and> available f ''A'' \<and> available f ''B'' \<and> available f ''C''
            \<longrightarrow> providers_to_try f (Some ''B'') = [''B'', ''A'', ''C''])"
proof -
  have gen: "providers_to_try f q = spec_candidate_order f q" for q
  proof -
    have "fallback_loop f (fallback_order (llm f)) (preferred_first f q) =
          preferred_first f q @
          filter (\<lambda>n. available f n \<and> n \<notin> set (preferred_first f q))
                 (dedup_seen [] (fallback_order (llm f)))"
      by (rule fallback_loop_spec) simp
    then show ?thesis
      using assms
      by (simp add: providers_to_try_def spec_candidate_order_def dedup_first_def
                    preferred_first_def available_def Let_def split: option.splits)
  qed
  have "fallback_order (llm f) = [''A'', ''B'', ''C''] \<and> available f ''A''
        \<and> available f ''B'' \<and> available f ''C''
        \<longrightarrow> spec_candidate_order f (Some ''B'') = [''B'', ''A'', ''C'']"
    by (simp add: spec_candidate_order_def dedup_first_def)
  with gen show ?thesis by simp
qed

theorem candidate_order_witness:
  "enable_fallback (llm example_factory)
   \<and> providers_to_try example_factory (Some ''B'') = spec_candidate_order example_factory (Some ''B'')
   \<and> spec_candidate_order example_factory (Some ''B'') = [''B'', ''A'', ''C'']"
proof -
  have h: "enable_fallback (llm example_factory)" by (simp add: example_factory_def)
  have "spec_candidate_order example_factory (Some ''B'') = [''B'', ''A'', ''C'']"
    by (simp add: spec_candidate_order_def dedup_first_def available_def example_factory_def)
  then show ?thesis using candidate_order[OF h, of "Some ''B''"] h by simp
qed

text \<open>
  Claim C3. When the candidate list is empty or every candidate fails, the result is
  the synthetic response: provider \<open>none\<close>, \<open>finish_reason\<close> \<open>error\<close>, the error text
  \<open>All providers failed. Last error: \<close> followed by the last recorded error (\<open>None\<close>
  when nothing was tried), and the apology as content.
\<close>

theorem all_failed_result:
  assumes "\<forall>c\<in>set (providers_to_try f pp). candidate_fails f m sp c"
  shows "generate_with_fallback f m sp pp =
           \<lparr> r_content = ''I apologize, but I'' @ [CHR 0x27] @ ''m currently unable to process your request. Please try again later.'',
             r_model = ''unknown'',
             provider = ''none'',
             tokens_used = None,
             finish_reason = Some ''error'',
             error = Some (''All providers failed. Last error: ''
                           @ format_optional (last_error_of f m sp (providers_to_try f pp))) \<rparr>
         \<and> (providers_to_try f pp = [] \<longrightarrow>
              error (generate_with_fallback f m sp pp)
                = Some ''All providers failed. Last error: None'')"
proof -
  let ?cs = "providers_to_try f pp"
  have pre: "\<forall>c\<in>set ?cs. candidate_fails f m sp c \<and> providers f c \<noteq> None"
    using assms providers_to_try_dom[of f pp] by auto
  have "try_providers f m sp (?cs @ []) None [] =
        try_providers f m sp [] (last_error_of f m sp ?cs) ([] @ ?cs)"
    using try_providers_failed_prefix[OF pre, of "[]" None "[]"]
    by (simp add: last_error_of_def)
  then have loop: "try_providers f m sp ?cs None [] = (None, last_error_of f m sp ?cs, ?cs)"
    by simp
  have main: "generate_with_fallback f m sp pp = all_failed_response (last_error_of f m sp ?cs)"
    by (simp add: generate_with_fallback_def generate_with_fallback_traced_def loop)
  show ?thesis
    by (simp add: main all_failed_response_def last_error_of_def format_optional_def)
qed

theorem all_failed_result_witness:
  "providers_to_try failing_factory None = [''B'', ''A'']
   \<and> candidate_fails failing_factory [] None ''B''
   \<and> candidate_fails failing_factory [] None ''A''
   \<and> provider (generate_with_fallback failing_factory [] None None) = ''none''
   \<and> finish_reason (generate_with_fallback failing_factory [] None None) = Some ''error''
   \<and> error (generate_with_fallback failing_factory [] None None)
       = Some ''All providers failed. Last error: timeout''"
proof -
  have cs: "providers_to_try failing_factory None = [''B'', ''A'']"
    by (simp add: ex_simps)
  have h: "\<forall>c\<in>set (providers_to_try failing_factory None). candidate_fails failing_factory [] None c"
    by (simp add: cs) (simp add: ex_simps)
  have le: "last_error_of failing_factory [] None [''B'', ''A''] = Some ''timeout''"
    by (simp add: last_error_of_def recorded_error_def ex_simps)
  show ?thesis
    using all_failed_result[OF h] h cs le by (simp add: format_optional_def)
qed

text \<open>
  Without fallback the candidate list is the preferred provider alone, when it is
  specified and available, and empty otherwise.
\<close>

lemma providers_to_try_no_fallback:
  "\<not> enable_fallback (llm f) \<Longrightarrow>
   providers_to_try f pp =
     (case pp of None \<Rightarrow> [] | Some p \<Rightarrow> if p \<noteq> [] \<and> available f p then [p] else [])"
  by (simp add: providers_to_try_def preferred_first_def available_def split: option.splits)

text \<open>
  Claim C4. With fallback disabled and no preferred provider the candidate list is
  empty although the configured default provider is available: no provider is tried
  and the synthetic \<open>none\<close> response is returned, while \<open>get_provider(None)\<close> and the
  provider selection of \<open>chat_stream\<close> do take the default provider.
\<close>

theorem no_fallback_ignores_default:
  "\<not> enable_fallback (llm no_fallback_factory)
   \<and> available no_fallback_factory (default_provider (llm no_fallback_factory))
   \<and> providers_to_try no_fallback_factory None = []
   \<and> providers_to_try no_fallback_factory None \<noteq> [default_provider (llm no_fallback_factory)]
   \<and> generate_with_fallback_traced no_fallback_factory [] None None
       = (all_failed_response None, [])
   \<and> get_provider no_fallback_factory None = get_default_provider no_fallback_factory
   \<and> get_default_provider no_fallback_factory \<noteq> None
   \<and> req_provider long_request = None
   \<and> stream_provider_name no_fallback_factory long_request = ''C''
   \<and> providers no_fallback_factory (stream_provider_name no_fallback_factory long_request)
       \<noteq> None"
  by (simp add: ex_simps available_def generate_with_fallback_traced_def
                get_provider_def get_default_provider_def stream_provider_name_def
                long_request_def)

section \<open>Properties of the adapters and of the registry\<close>

lemma class_provider_id_simps:
  "class_provider_id OpenAIProvider = ''openai''"
  "class_provider_id ClaudeProvider = ''claude''"
  "class_provider_id GeminiProvider = ''gemini''"
  "class_provider_id HuggingFaceProvider = ''huggingface''"
  by code_simp+

lemma PROVIDERS_id: "PROVIDERS name = Some c \<Longrightarrow> class_provider_id c = name"
  by (auto simp: PROVIDERS_def class_provider_id_simps split: if_splits)

lemma try_body_provider:
  "try_body self m sp = Inr r \<Longrightarrow> provider r = class_provider_id (cls self) \<and> error r = None"
  by (cases self)
     (auto simp: openai_try_def claude_try_def gemini_try_def huggingface_try_def
                 class_provider_id_simps
           split: sum.splits list.splits if_splits)

lemma generate_response_provider:
  "provider (generate_response self m sp) = class_provider_id (cls self)"
  by (auto simp: generate_response_def handle_error_def dest: try_body_provider split: sum.splits)

lemma handle_error_failure_result:
  "handle_error self e ''generate_response'' =
     failure_result (model self) (class_provider_id (cls self)) (str_of e)"
  by (simp add: handle_error_def failure_result_def)

lemma generate_response_cases:
  "(\<exists>r. try_body self m sp = Inr r \<and> generate_response self m sp = r)
   \<or> (\<exists>e. try_body self m sp = Inl e
          \<and> generate_response self m sp =
              failure_result (model self) (class_provider_id (cls self)) (str_of e))"
  by (cases "try_body self m sp")
     (simp_all add: generate_response_def handle_error_failure_result)

text \<open>
  Claim C5. \<open>generate_response\<close> always returns a response, and every failure under it
  is the error result (\<open>finish_reason\<close> \<open>error\<close>, \<open>error\<close> equal to
  \<open>generate_response failed: \<close> followed by the text of the exception, the apology as
  content, the model and the provider name of the adapter). Adapter by adapter:
  \<^item> OpenAI and HuggingFace: the client call raises, or it answers with no choice;
  \<^item> Claude: the client call raises, or it answers with no content block;
  \<^item> Gemini: \<open>start_chat\<close> raises, or the message list is empty, or \<open>send_message\<close>
    raises.
  An OpenAI answer with a choice is returned as the success result. For every adapter
  and every input the result is either the one its \<open>try\<close> body returned or the error
  result of the exception the body raised.
\<close>

theorem generate_response_catches:
  "(oc mdl (format_messages m sp) = Inl e \<longrightarrow>
      generate_response (OpenAI mdl oc) m sp = failure_result mdl ''openai'' (str_of e))
   \<and> (oc mdl (format_messages m sp) = Inr completion \<and> choices completion = [] \<longrightarrow>
      generate_response (OpenAI mdl oc) m sp =
        failure_result mdl ''openai'' ''list index out of range'')
   \<and> (oc mdl (format_messages m sp) = Inr completion \<and> choices completion = ch # others \<longrightarrow>
      generate_response (OpenAI mdl oc) m sp =
        \<lparr> r_content = message_content ch, r_model = mdl, provider = ''openai'',
          tokens_used = usage_total_tokens completion,
          finish_reason = choice_finish_reason ch, error = None \<rparr>)
   \<and> (ac mdl (case sp of None \<Rightarrow> [] | Some s \<Rightarrow> s) m = Inl e \<longrightarrow>
      generate_response (Claude mdl ac) m sp = failure_result mdl ''claude'' (str_of e))
   \<and> (ac mdl (case sp of None \<Rightarrow> [] | Some s \<Rightarrow> s) m = Inr answer
        \<and> content_texts answer = [] \<longrightarrow>
      generate_response (Claude mdl ac) m sp =
        failure_result mdl ''claude'' ''list index out of range'')
   \<and> (gm (gemini_history m) = Inl e \<longrightarrow>
      generate_response (Gemini mdl gm) m sp = failure_result mdl ''gemini'' (str_of e))
   \<and> (gm (gemini_history m) = Inr session \<and> m = [] \<longrightarrow>
      generate_response (Gemini mdl gm) m sp =
        failure_result mdl ''gemini'' ''list index out of range'')
   \<and> (gm (gemini_history m) = Inr session \<and> m \<noteq> []
        \<and> session (content (last m)) = Inl e \<longrightarrow>
      generate_response (Gemini mdl gm) m sp = failure_result mdl ''gemini'' (str_of e))
   \<and> (hc (format_messages m sp) mdl = Inl e \<longrightarrow>
      generate_response (HuggingFace mdl hc) m sp =
        failure_result mdl ''huggingface'' (str_of e))
   \<and> (hc (format_messages m sp) mdl = Inr out \<and> hf_choices out = [] \<longrightarrow>
      generate_response (HuggingFace mdl hc) m sp =
        failure_result mdl ''huggingface'' ''list index out of range'')
   \<and> ((\<exists>r. try_body self m sp = Inr r \<and> generate_response self m sp = r)
      \<or> (\<exists>x. try_body self m sp = Inl x
             \<and> generate_response self m sp =
                 failure_result (model self) (class_provider_id (cls self)) (str_of x)))
   \<and> failure_result mdl pid d =
        \<lparr> r_content = ''I apologize, but I encountered an error processing your request. Please try again.'',
          r_model = mdl, provider = pid, tokens_used = None,
          finish_reason = Some ''error'',
          error = Some (''generate_response failed: '' @ d) \<rparr>"
proof -
  have openai: "generate_response (OpenAI mdl oc) m sp =
      (case openai_try mdl oc m sp of
         Inl x \<Rightarrow> failure_result mdl ''openai'' (str_of x) | Inr r \<Rightarrow> r)"
    by (simp add: generate_response_def handle_error_failure_result class_provider_id_simps
             split: sum.splits)
  have claude: "generate_response (Claude mdl ac) m sp =
      (case claude_try mdl ac m sp of
         Inl x \<Rightarrow> failure_result mdl ''claude'' (str_of x) | Inr r \<Rightarrow> r)"
    by (simp add: generate_response_def handle_error_failure_result class_provider_id_simps
             split: sum.splits)
  have gemini: "generate_response (Gemini mdl gm) m sp =
      (case gemini_try mdl gm m sp of
         Inl x \<Rightarrow> failure_result mdl ''gemini'' (str_of x) | Inr r \<Rightarrow> r)"
    for m
    by (simp add: generate_response_def handle_error_failure_result class_provider_id_simps
             split: sum.splits)
  have hf: "generate_response (HuggingFace mdl hc) m sp =
      (case huggingface_try mdl hc m sp of
         Inl x \<Rightarrow> failure_result mdl ''huggingface'' (str_of x) | Inr r \<Rightarrow> r)"
    by (simp add: generate_response_def handle_error_failure_result class_provider_id_simps
             split: sum.splits)
  have o: "(oc mdl (format_messages m sp) = Inl e \<longrightarrow>
      generate_response (OpenAI mdl oc) m sp = failure_result mdl ''openai'' (str_of e))
   \<and> (oc mdl (format_messages m sp) = Inr completion \<and> choices completion = [] \<longrightarrow>
      generate_response (OpenAI mdl oc) m sp =
        failure_result mdl ''openai'' ''list index out of range'')
   \<and> (oc mdl (format_messages m sp) = Inr completion \<and> choices completion = ch # others \<longrightarrow>
      generate_response (OpenAI mdl oc) m sp =
        \<lparr> r_content = message_content ch, r_model = mdl, provider = ''openai'',
          tokens_used = usage_total_tokens completion,
          finish_reason = choice_finish_reason ch, error = None \<rparr>)"
    by (simp add: openai openai_try_def index_error_def)
  have c: "(ac mdl (case sp of None \<Rightarrow> [] | Some s \<Rightarrow> s) m = Inl e \<longrightarrow>
      generate_response (Claude mdl ac) m sp = failure_result mdl ''claude'' (str_of e))
   \<and> (ac mdl (case sp of None \<Rightarrow> [] | Some s \<Rightarrow> s) m = Inr answer
        \<and> content_texts answer = [] \<longrightarrow>
      generate_response (Claude mdl ac) m sp =
        failure_result mdl ''claude'' ''list index out of range'')"
    by (simp add: claude claude_try_def index_error_def)
  have g: "(gm (gemini_history m) = Inl e \<longrightarrow>
      generate_response (Gemini mdl gm) m sp = failure_result mdl ''gemini'' (str_of e))
   \<and> (gm (gemini_history m) = Inr session \<and> m = [] \<longrightarrow>
      generate_response (Gemini mdl gm) m sp =
        failure_result mdl ''gemini'' ''list index out of range'')
   \<and> (gm (gemini_history m) = Inr session \<and> m \<noteq> []
        \<and> session (content (last m)) = Inl e \<longrightarrow>
      generate_response (Gemini mdl gm) m sp = failure_result mdl ''gemini'' (str_of e))"
    by (auto simp: gemini gemini_try_def index_error_def)
  have h: "(hc (format_messages m sp) mdl = Inl e \<longrightarrow>
      generate_response (HuggingFace mdl hc) m sp =
        failure_result mdl ''huggingface'' (str_of e))
   \<and> (hc (format_messages m sp) mdl = Inr out \<and> hf_choices out = [] \<longrightarrow>
      generate_response (HuggingFace mdl hc) m sp =
        failure_result mdl ''huggingface'' ''list index out of range'')"
    by (simp add: hf huggingface_try_def index_error_def)
  have total: "(\<exists>r. try_body self m sp = Inr r \<and> generate_response self m sp = r)
      \<or> (\<exists>x. try_body self m sp = Inl x
             \<and> generate_response self m sp =
                 failure_result (model self) (class_provider_id (cls self)) (str_of x))"
    by (rule generate_response_cases)
  have unfolded: "failure_result mdl pid d =
        \<lparr> r_content = ''I apologize, but I encountered an error processing your request. Please try again.'',
          r_model = mdl, provider = pid, tokens_used = None,
          finish_reason = Some ''error'',
          error = Some (''generate_response failed: '' @ d) \<rparr>"
    by (simp add: failure_result_def)
  from o c g h total unfolded show ?thesis
    by (intro conjI) (erule conjE | assumption)+
qed

theorem generate_response_catches_witness:
  "refusing_openai ''gpt'' (format_messages [] None) = Inl (PyException ''connection refused'')
   \<and> generate_response (OpenAI ''gpt'' refusing_openai) [] None =
        \<lparr> r_content = ''I apologize, but I encountered an error processing your request. Please try again.'',
          r_model = ''gpt'', provider = ''openai'', tokens_used = None,
          finish_reason = Some ''error'',
          error = Some ''generate_response failed: connection refused'' \<rparr>
   \<and> content_texts
        \<lparr> content_texts = [], input_tokens = 3, output_tokens = 0,
          stop_reason = Some ''end_turn'' \<rparr> = []
   \<and> generate_response (Claude ''sonnet'' empty_anthropic) [] None =
        \<lparr> r_content = ''I apologize, but I encountered an error processing your request. Please try again.'',
          r_model = ''sonnet'', provider = ''claude'', tokens_used = None,
          finish_reason = Some ''error'',
          error = Some ''generate_response failed: list index out of range'' \<rparr>
   \<and> refusing_gemini (gemini_history []) = Inl (PyException ''connection refused'')
   \<and> generate_response (Gemini ''pro'' refusing_gemini) [] None =
        \<lparr> r_content = ''I apologize, but I encountered an error processing your request. Please try again.'',
          r_model = ''pro'', provider = ''gemini'', tokens_used = None,
          finish_reason = Some ''error'',
          error = Some ''generate_response failed: connection refused'' \<rparr>"
proof -
  have h1: "refusing_openai ''gpt'' (format_messages [] None) = Inl (PyException ''connection refused'')"
    by (simp add: refusing_openai_def)
  have h2: "empty_anthropic ''sonnet'' (case None of None \<Rightarrow> [] | Some s \<Rightarrow> s) [] =
              Inr \<lparr> content_texts = [], input_tokens = 3, output_tokens = 0,
                    stop_reason = Some ''end_turn'' \<rparr>"
    by (simp add: empty_anthropic_def)
  have h3: "refusing_gemini (gemini_history []) = Inl (PyException ''connection refused'')"
    by (simp add: refusing_gemini_def)
  note t = generate_response_catches
      [where oc = refusing_openai and ac = empty_anthropic and gm = refusing_gemini
         and m = "[]" and sp = None and e = "PyException ''connection refused''"
         and answer = "\<lparr> content_texts = [], input_tokens = 3, output_tokens = 0,
                          stop_reason = Some ''end_turn'' \<rparr>"]
  have a: "generate_response (OpenAI ''gpt'' refusing_openai) [] None =
             failure_result ''gpt'' ''openai'' ''connection refused''"
    using t[where mdl = "''gpt''"] h1 by simp
  have b: "generate_response (Claude ''sonnet'' empty_anthropic) [] None =
             failure_result ''sonnet'' ''claude'' ''list index out of range''"
    using t[where mdl = "''sonnet''"] h2 by simp
  have c: "generate_response (Gemini ''pro'' refusing_gemini) [] None =
             failure_result ''pro'' ''gemini'' ''connection refused''"
    using t[where mdl = "''pro''"] h3 by simp
  show ?thesis
    using a b c h1 h3 by (simp add: failure_result_def)
qed

lemma construct_cls: "construct env c api_key mdl = Inr a \<Longrightarrow> cls a = c"
  by (cases c) (auto split: if_splits sum.splits)

lemma initialize_one_cls:
  "initialize_one env name pc reg n = Some a \<Longrightarrow>
   reg n = Some a \<or> PROVIDERS n = Some (cls a)"
  by (auto simp: initialize_one_def dest: construct_cls
           split: if_splits option.splits sum.splits)

lemma initialize_providers_cls:
  "initialize_providers env pcs reg n = Some a \<Longrightarrow>
   reg n = Some a \<or> PROVIDERS n = Some (cls a)"
proof (induction pcs arbitrary: reg)
  case Nil
  then show ?case by simp
next
  case (Cons x pcs)
  obtain name pc where x: "x = (name, pc)" by (cases x)
  from Cons.prems x
  have "initialize_one env name pc reg n = Some a \<or> PROVIDERS n = Some (cls a)"
    using Cons.IH[of "initialize_one env name pc reg"] by simp
  then show ?case using initialize_one_cls by blast
qed

lemma registry_provider_id:
  "initialize_providers env pcs Map.empty n = Some a \<Longrightarrow>
   provider (generate_response a m sp) = n"
  using initialize_providers_cls[of env pcs Map.empty n a] PROVIDERS_id
  by (simp add: generate_response_provider)

lemma try_providers_result:
  assumes "set cs \<subseteq> dom (providers f)"
  shows "(\<exists>failed name rest p r.
            cs = failed @ name # rest
            \<and> (\<forall>c\<in>set failed. candidate_fails f m sp c)
            \<and> providers f name = Some p \<and> p m sp = Inr r
            \<and> finish_reason r \<noteq> Some ''error''
            \<and> try_providers f m sp cs None [] =
                (Some r, last_error_of f m sp failed, failed @ [name]))
         \<or> ((\<forall>c\<in>set cs. candidate_fails f m sp c)
            \<and> try_providers f m sp cs None [] = (None, last_error_of f m sp cs, cs))"
proof (cases "\<forall>c\<in>set cs. candidate_fails f m sp c")
  case True
  with assms have pre: "\<forall>c\<in>set cs. candidate_fails f m sp c \<and> providers f c \<noteq> None"
    by auto
  have "try_providers f m sp cs None [] = (None, last_error_of f m sp cs, cs)"
    using try_providers_failed_prefix[OF pre, of "[]" None "[]"]
    by (simp add: last_error_of_def)
  with True show ?thesis by blast
next
  case False
  let ?P = "candidate_fails f m sp"
  let ?failed = "takeWhile ?P cs"
  from False have "dropWhile ?P cs \<noteq> []" by simp
  then obtain name rest where dw: "dropWhile ?P cs = name # rest"
    by (cases "dropWhile ?P cs") auto
  then have nofail: "\<not> ?P name" using hd_dropWhile[of ?P cs] by force
  have split: "cs = ?failed @ name # rest"
    using takeWhile_dropWhile_id[of ?P cs] dw by simp
  have fl: "\<forall>c\<in>set ?failed. ?P c" by (auto dest: set_takeWhileD)
  with assms split have pre: "\<forall>c\<in>set ?failed. ?P c \<and> providers f c \<noteq> None"
    by (metis Un_iff domIff set_append subsetD)
  from assms split obtain p where p: "providers f name = Some p"
    by (metis domD in_set_conv_decomp subsetD)
  from nofail p obtain r where r: "p m sp = Inr r" "finish_reason r \<noteq> Some ''error''"
    by (auto simp: candidate_fails_def candidate_outcome_def split: sum.splits)
  have "try_providers f m sp (?failed @ name # rest) None [] =
        try_providers f m sp (name # rest) (last_error_of f m sp ?failed) ?failed"
    using try_providers_failed_prefix[OF pre, of "name # rest" None "[]"]
    by (simp add: last_error_of_def)
  also have "\<dots> = (Some r, last_error_of f m sp ?failed, ?failed @ [name])"
    using p r by simp
  finally have "try_providers f m sp cs None [] =
      (Some r, last_error_of f m sp ?failed, ?failed @ [name])"
    using split by simp
  with split fl p r show ?thesis by blast
qed


text \<open>
  Claim C8. On a factory built by \<open>_initialize_providers\<close>, the response returned by
  \<open>generate_with_fallback\<close> names its producer: either it is the response of the adapter
  registered under the name tried last, and \<open>provider\<close> is that name, or every candidate
  failed and \<open>provider\<close> is \<open>none\<close>. It is never empty. A registered adapter called
  directly also answers with its registry name as \<open>provider\<close>, on success and on error.
\<close>

theorem provider_id_is_producer:
  assumes "generate_with_fallback_traced (new_factory env cfg pcs) m sp pp = (r, tried)"
  shows "provider r \<noteq> []
         \<and> ((\<exists>a. tried \<noteq> []
                 \<and> initialize_providers env pcs Map.empty (last tried) = Some a
                 \<and> r = generate_response a m sp
                 \<and> provider r = last tried
                 \<and> finish_reason r \<noteq> Some ''error'')
            \<or> (provider r = ''none''
                \<and> finish_reason r = Some ''error''
                \<and> tried = providers_to_try (new_factory env cfg pcs) pp
                \<and> (\<forall>c\<in>set tried. candidate_fails (new_factory env cfg pcs) m sp c)))
         \<and> (\<forall>n a. initialize_providers env pcs Map.empty n = Some a \<longrightarrow>
                provider (generate_response a m sp) = n)"
proof -
  have direct: "\<forall>n a. initialize_providers env pcs Map.empty n = Some a \<longrightarrow>
                provider (generate_response a m sp) = n"
    using registry_provider_id by blast
  let ?F = "new_factory env cfg pcs"
  let ?cs = "providers_to_try ?F pp"
  have dom: "set ?cs \<subseteq> dom (providers ?F)" by (rule providers_to_try_dom)
  from try_providers_result[OF dom, where m = m and sp = sp]
  consider
    (won) failed name p r0 where
      "providers ?F name = Some p" "p m sp = Inr r0" "finish_reason r0 \<noteq> Some ''error''"
      "try_providers ?F m sp ?cs None [] = (Some r0, last_error_of ?F m sp failed, failed @ [name])"
  | (lost) "\<forall>c\<in>set ?cs. candidate_fails ?F m sp c"
      "try_providers ?F m sp ?cs None [] = (None, last_error_of ?F m sp ?cs, ?cs)"
    by blast
  then show ?thesis
  proof cases
    case won
    from won(4) assms have eq: "r = r0" "tried = failed @ [name]"
      by (simp_all add: generate_with_fallback_traced_def)
    from won(1) obtain a where a: "initialize_providers env pcs Map.empty name = Some a"
      and p: "p = adapter_call a"
      by (auto simp: new_factory_def)
    from p won(2) have r0: "r0 = generate_response a m sp" by (simp add: adapter_call_def)
    have id: "provider r0 = name" using registry_provider_id[OF a] r0 by simp
    have "PROVIDERS name = Some (cls a)" using initialize_providers_cls[OF a] by simp
    then have "name \<noteq> []" by (auto simp: PROVIDERS_def split: if_splits)
    with eq a r0 id won(3) direct show ?thesis by auto
  next
    case lost
    from lost(2) assms have "r = all_failed_response (last_error_of ?F m sp ?cs)" "tried = ?cs"
      by (auto simp: generate_with_fallback_traced_def)
    with lost(1) direct show ?thesis by (simp add: all_failed_response_def)
  qed
qed

lemma example_registry:
  "initialize_providers example_env example_provider_configs Map.empty =
     [''openai'' \<mapsto> openai_adapter, ''claude'' \<mapsto> claude_adapter]"
  by (simp add: example_env_def example_provider_configs_def initialize_one_def PROVIDERS_def
                openai_adapter_def claude_adapter_def)

theorem provider_id_is_producer_witness:
  "generate_with_fallback_traced
     (new_factory example_env example_llm_config example_provider_configs) [] None None
   = (\<lparr> r_content = ''hi'', r_model = ''sonnet'', provider = ''claude'',
         tokens_used = Some 7, finish_reason = Some ''end_turn'', error = None \<rparr>,
      [''openai'', ''claude''])
   \<and> provider (fst (generate_with_fallback_traced
         (new_factory example_env example_llm_config example_provider_configs) [] None None))
       = last [''openai'', ''claude'']"
proof -
  let ?F = "new_factory example_env example_llm_config example_provider_configs"
  have cs: "providers_to_try ?F None = [''openai'', ''claude'']"
    by (simp add: new_factory_def example_registry providers_to_try_def preferred_first_def
                  example_llm_config_def)
  have o: "generate_response openai_adapter [] None =
             handle_error openai_adapter (PyException ''connection refused'') ''generate_response''"
    by (simp add: generate_response_def openai_try_def openai_adapter_def
                  refusing_openai_def)
  have c: "generate_response claude_adapter [] None =
             \<lparr> r_content = ''hi'', r_model = ''sonnet'', provider = ''claude'',
               tokens_used = Some 7, finish_reason = Some ''end_turn'', error = None \<rparr>"
    by (simp add: generate_response_def claude_try_def claude_adapter_def
                  answering_anthropic_def)
  have h: "generate_with_fallback_traced ?F [] None None
           = (\<lparr> r_content = ''hi'', r_model = ''sonnet'', provider = ''claude'',
                 tokens_used = Some 7, finish_reason = Some ''end_turn'', error = None \<rparr>,
              [''openai'', ''claude''])"
    unfolding generate_with_fallback_traced_def cs
    by (simp add: new_factory_def example_registry adapter_call_def o c handle_error_def)
  show ?thesis
    using provider_id_is_producer[OF h] h by simp
qed

section \<open>Properties of the retrieval service and of the session store\<close>

lemma context_loop_eq:
  "context_loop i docs parts srcs =
     (parts @ map (\<lambda>(j, doc). ''['' @ str_nat j @ ''] '' @ page_content doc) (List.enumerate i docs),
      srcs @ map (\<lambda>doc. \<lparr> title = metadata_get doc ''source'' ''Unknown'',
                          url = metadata_get doc ''url'' ''#'',
                          src_content = take 200 (page_content doc) @ ''...'' \<rparr>) docs)"
  by (induction docs arbitrary: i parts srcs) simp_all

text \<open>
  Claim C6. \<open>retrieve_context\<close> returns a dictionary for every outcome of the search:
  for an empty result list the context is \<open>No relevant information found.\<close> and the
  sources are empty; when the search raises, the context is the sentinel
  \<open>Error retrieving information.\<close> and the sources are empty.
\<close>

theorem retrieve_context_sentinels:
  "retrieve_context (Inr []) =
     \<lparr> context_text = ''No relevant information found.'', sources = [] \<rparr>
   \<and> retrieve_context (Inl e) =
     \<lparr> context_text = ''Error retrieving information.'', sources = [] \<rparr>"
  by (simp add: retrieve_context_def)

text \<open>
  The search of the repository's own \<open>VectorStore\<close> swallows a failure of the index, so
  that failure reaches the retriever as an empty result list.
\<close>

lemma index_failure_is_empty_result:
  "retrieve_context (VectorStore_search (Inl e)) =
     \<lparr> context_text = ''No relevant information found.'', sources = [] \<rparr>"
  by (simp add: retrieve_context_def VectorStore_search_def)

text \<open>
  Claim C7, as the code has it. For a non-empty result list the context is the
  passage texts in order, each prefixed with \<open>[i] \<close> for its 1-based rank \<open>i\<close>, joined
  by a blank line; the excerpt of each source is the first 200 characters of the
  passage text followed by \<open>...\<close>, which is appended in every case, so an excerpt has at
  most 203 characters.
\<close>

theorem retrieve_context_format:
  assumes "results \<noteq> []"
  shows "retrieve_context (Inr results) =
           \<lparr> context_text =
               join [CHR 0x0A, CHR 0x0A]
                 (map (\<lambda>(i, doc). ''['' @ str_nat i @ ''] '' @ page_content doc)
                      (List.enumerate 1 results)),
             sources =
               map (\<lambda>doc. \<lparr> title = metadata_get doc ''source'' ''Unknown'',
                              url = metadata_get doc ''url'' ''#'',
                              src_content = take 200 (page_content doc) @ ''...'' \<rparr>) results \<rparr>
         \<and> (\<forall>s\<in>set (sources (retrieve_context (Inr results))).
               length (src_content s) \<le> 203)"
  using assms by (auto simp: retrieve_context_def context_loop_eq)

theorem retrieve_context_format_witness:
  "[refund_doc, short_doc] \<noteq> []
   \<and> retrieve_context (Inr [refund_doc, short_doc]) =
       \<lparr> context_text =
           ''[1] Refunds are processed within 5 business days.'' @ [CHR 0x0A, CHR 0x0A]
           @ ''[2] abc'',
         sources =
           [\<lparr> title = ''policy.md'', url = ''#'',
              src_content = ''Refunds are processed within 5 business days....'' \<rparr>,
            \<lparr> title = ''Unknown'', url = ''#'', src_content = ''abc...'' \<rparr>] \<rparr>"
proof -
  have h: "[refund_doc, short_doc] \<noteq> []" by simp
  have n: "str_nat 1 = ''1''" "str_nat 2 = ''2''" by code_simp+
  have n': "str_nat (Suc 0) = ''1''" "str_nat (Suc (Suc 0)) = ''2''"
    using n by (simp_all add: numeral_2_eq_2)
  show ?thesis
    using retrieve_context_format[OF h]
    by (simp add: refund_doc_def short_doc_def metadata_get_def n n')
qed

text \<open>
  The passage \<open>abc\<close> is not cut, and its excerpt is \<open>abc...\<close>: the ellipsis is appended
  also when nothing was truncated.
\<close>

theorem excerpt_ellipsis_counterexample:
  "length (page_content short_doc) \<le> 200
   \<and> map src_content (sources (retrieve_context (Inr [short_doc]))) = [''abc...'']
   \<and> map src_content (sources (retrieve_context (Inr [short_doc])))
       \<noteq> map (\<lambda>doc. spec_excerpt (page_content doc)) [short_doc]"
  by (simp add: retrieve_context_def short_doc_def spec_excerpt_def)

text \<open>
  Claim C9, as the code has it. Deleting or reading an absent session id is the
  not-found error (status 404) and leaves the store as it is; deleting a session that
  exists removes it and answers with the success message, after which a second delete
  of the same id is the not-found error.
\<close>

theorem delete_and_read_absent:
  "(convs sid = None \<longrightarrow>
      delete_history convs sid = (Inl (HTTPException 404 ''Session not found''), convs)
      \<and> get_history convs sid = Inl (HTTPException 404 ''Session not found''))
   \<and> (convs sid = Some s \<longrightarrow>
      delete_history convs sid = (Inr ''History deleted successfully'', convs(sid := None))
      \<and> get_history convs sid = Inr s
      \<and> delete_history (snd (delete_history convs sid)) sid
          = (Inl (HTTPException 404 ''Session not found''), convs(sid := None)))"
  by (simp add: delete_history_def get_history_def)

theorem delete_and_read_absent_witness:
  "delete_history Map.empty ''s1'' = (Inl (HTTPException 404 ''Session not found''), Map.empty)
   \<and> get_history Map.empty ''s1'' = Inl (HTTPException 404 ''Session not found'')
   \<and> delete_history [''s1'' \<mapsto> example_session] ''s1''
       = (Inr ''History deleted successfully'', [''s1'' \<mapsto> example_session](''s1'' := None))
   \<and> delete_history (snd (delete_history [''s1'' \<mapsto> example_session] ''s1'')) ''s1''
       = (Inl (HTTPException 404 ''Session not found''),
          [''s1'' \<mapsto> example_session](''s1'' := None))"
  using delete_and_read_absent[of Map.empty "''s1''" example_session]
        delete_and_read_absent[of "[''s1'' \<mapsto> example_session]" "''s1''" example_session]
  by simp

text \<open>
  Deleting an id the store does not hold answers with the 404 error, and deleting the
  same id twice gives two different answers.
\<close>

theorem delete_absent_counterexample:
  "delete_history Map.empty ''s1'' = (Inl (HTTPException 404 ''Session not found''), Map.empty)
   \<and> fst (delete_history (snd (delete_history [''s1'' \<mapsto> example_session] ''s1'')) ''s1'')
       \<noteq> fst (delete_history [''s1'' \<mapsto> example_session] ''s1'')"
  by (simp add: delete_history_def)

section \<open>Properties of the chat handlers\<close>

lemma last_n_long: "n < length xs \<Longrightarrow> last_n n xs = drop (length xs - n) xs"
  by (simp add: last_n_def)

lemma store_turn_history:
  "convs sid = Some s \<Longrightarrow>
   stored_history (store_turn env sid request r convs) sid =
     history s @
       [\<lparr> sm_id = user_msg_id env, sm_role = ''user'', sm_content = message request,
          sm_timestamp = now_user env, sm_provider = None \<rparr>,
        \<lparr> sm_id = assistant_msg_id env, sm_role = ''assistant'', sm_content = r_content r,
          sm_timestamp = now_assistant env, sm_provider = Some (provider r) \<rparr>]"
  by (simp add: store_turn_def stored_history_def)

lemma ensure_session_history:
  "\<exists>s. ensure_session env sid convs sid = Some s \<and> history s = stored_history convs sid"
  by (auto simp: ensure_session_def stored_history_def)

lemma store_turn_after_ensure:
  "stored_history (store_turn env sid request r (ensure_session env sid convs)) sid =
     stored_history convs sid @
       [\<lparr> sm_id = user_msg_id env, sm_role = ''user'', sm_content = message request,
          sm_timestamp = now_user env, sm_provider = None \<rparr>,
        \<lparr> sm_id = assistant_msg_id env, sm_role = ''assistant'', sm_content = r_content r,
          sm_timestamp = now_assistant env, sm_provider = Some (provider r) \<rparr>]"
proof -
  obtain s where s: "ensure_session env sid convs sid = Some s"
    "history s = stored_history convs sid"
    using ensure_session_history by blast
  show ?thesis
    using store_turn_history[where convs = "ensure_session env sid convs" and sid = sid
                               and s = s, OF s(1)] s(2)
    by simp
qed

text \<open>
  The answers with status 500 of \<open>chat\<close>: a rejected request leaves the store as it
  was; a raise of \<open>get_llm_factory()\<close>, \<open>DocumentRetriever()\<close> or \<open>get_config()\<close> leaves
  the session created; a raise of \<open>ChatResponse(...)\<close> leaves the turn stored.
\<close>

lemma chat_internal_errors:
  "(validator env (message request) (req_session_id request) = Some x \<longrightarrow>
      chat env request convs = (Inl (HTTPException 500 (str_of x)), convs))
   \<and> (validator env (message request) (req_session_id request) = None
        \<and> get_llm_factory env = Inl x \<longrightarrow>
      chat env request convs =
        (Inl (HTTPException 500 (str_of x)),
         ensure_session env (session_id_of env request) convs))
   \<and> (validator env (message request) (req_session_id request) = None
        \<and> get_llm_factory env = Inr factory \<and> new_retriever env = Inl x \<longrightarrow>
      chat env request convs =
        (Inl (HTTPException 500 (str_of x)),
         ensure_session env (session_id_of env request) convs))
   \<and> (validator env (message request) (req_session_id request) = None
        \<and> get_llm_factory env = Inr factory \<and> new_retriever env = Inr search
        \<and> get_system_prompt env = Inl x \<longrightarrow>
      chat env request convs =
        (Inl (HTTPException 500 (str_of x)),
         ensure_session env (session_id_of env request) convs))"
  by (simp add: chat_def internal_error_def Let_def)

lemma example_generate:
  "generate_with_fallback example_factory msgs sp None = ok_response ''C''"
  by (simp add: generate_with_fallback_def generate_with_fallback_traced_def ex_simps)

lemma long_history_window:
  "drop (length long_history - 6) long_history =
     [turn ''user'' ''q2'', turn ''assistant'' ''a2'', turn ''user'' ''q3'',
      turn ''assistant'' ''a3'', turn ''user'' ''q4'', turn ''assistant'' ''a4'']"
  by (simp add: long_history_def)

text \<open>
  Claim C10, as the code has it. For a request whose conversation history has more
  than 6 messages, the list \<open>messages\<close> built by \<open>chat\<close> and by \<open>chat_stream\<close> is the
  last 6 history messages followed by one user message that holds the retrieved
  context and the query, 7 messages in all. When nothing raises, \<open>chat\<close> answers from
  \<open>generate_with_fallback\<close> on exactly this list, and \<open>chat_stream\<close> yields the fragments
  of the selected provider's \<open>stream_response\<close> on exactly this list. The history of
  the request is not written to the session store: \<open>chat\<close> appends the query and the
  reply of the current turn to the stored history of the session and nothing else.
\<close>

theorem history_window:
  assumes "conversation_history request = Some h" and "6 < length h"
  shows "chat_messages request cd =
           map (\<lambda>msg. \<lparr> role = cm_role msg, content = cm_content msg \<rparr>) (drop (length h - 6) h)
           @ [\<lparr> role = ''user'',
                content =
                  ''Context information:'' @ [CHR 0x0A] @ context_text cd @ [CHR 0x0A, CHR 0x0A]
                  @ ''Based on the above context, please answer the following question:''
                  @ [CHR 0x0A, CHR 0x0A] @ ''Question: '' @ message request
                  @ [CHR 0x0A, CHR 0x0A] @ ''Answer:'' \<rparr>]
         \<and> stream_messages request cd =
           map (\<lambda>msg. \<lparr> role = cm_role msg, content = cm_content msg \<rparr>) (drop (length h - 6) h)
           @ [\<lparr> role = ''user'',
                content =
                  ''Context: '' @ context_text cd @ [CHR 0x0A, CHR 0x0A]
                  @ ''Question: '' @ message request @ [CHR 0x0A, CHR 0x0A] @ ''Answer:'' \<rparr>]
         \<and> length (chat_messages request cd) = 7
         \<and> length (stream_messages request cd) = 7
         \<and> (validator env (message request) (req_session_id request) = None
              \<and> get_llm_factory env = Inr factory \<and> new_retriever env = Inr search
              \<and> get_system_prompt env = Inr sp \<longrightarrow>
              (let found = retrieve_context (search (message request));
                   reply =
                     generate_with_fallback factory
                       (map (\<lambda>msg. \<lparr> role = cm_role msg, content = cm_content msg \<rparr>)
                            (drop (length h - 6) h)
                        @ [\<lparr> role = ''user'',
                             content =
                               ''Context information:'' @ [CHR 0x0A] @ context_text found
                               @ [CHR 0x0A, CHR 0x0A]
                               @ ''Based on the above context, please answer the following question:''
                               @ [CHR 0x0A, CHR 0x0A] @ ''Question: '' @ message request
                               @ [CHR 0x0A, CHR 0x0A] @ ''Answer:'' \<rparr>])
                       (Some sp) (req_provider request);
                   answer =
                     \<lparr> response = r_content reply, resp_sources = sources found,
                       session_id = session_id_of env request,
                       success = (finish_reason reply \<noteq> Some ''error''),
                       provider_used = provider reply,
                       resp_tokens_used = tokens_used reply \<rparr>
               in fst (chat env request convs) =
                    (case response_model env answer of
                       Some x \<Rightarrow> Inl (HTTPException 500 (str_of x))
                     | None \<Rightarrow> Inr answer)
                  \<and> stored_history (snd (chat env request convs)) (session_id_of env request) =
                      stored_history convs (session_id_of env request)
                      @ [\<lparr> sm_id = user_msg_id env, sm_role = ''user'',
                           sm_content = message request, sm_timestamp = now_user env,
                           sm_provider = None \<rparr>,
                         \<lparr> sm_id = assistant_msg_id env, sm_role = ''assistant'',
                           sm_content = r_content reply, sm_timestamp = now_assistant env,
                           sm_provider = Some (provider reply) \<rparr>]))
         \<and> (validator env (message request) (req_session_id request) = None
              \<and> new_retriever env = Inr search \<and> get_llm_factory env = Inr factory
              \<and> providers factory (stream_provider_name factory request) \<noteq> None
              \<and> get_system_prompt env = Inr sp
              \<and> stream_response env (stream_provider_name factory request)
                   (map (\<lambda>msg. \<lparr> role = cm_role msg, content = cm_content msg \<rparr>)
                        (drop (length h - 6) h)
                    @ [\<lparr> role = ''user'',
                         content =
                           ''Context: ''
                           @ context_text (retrieve_context (search (message request)))
                           @ [CHR 0x0A, CHR 0x0A] @ ''Question: '' @ message request
                           @ [CHR 0x0A, CHR 0x0A] @ ''Answer:'' \<rparr>])
                   (Some sp) = (tokens, raised) \<longrightarrow>
              chat_stream env request =
                Inr (map sse tokens
                     @ [case raised of None \<Rightarrow> sse ''[DONE]'' | Some x \<Rightarrow> error_event x]))"
proof -
  have hne: "h \<noteq> []" using assms(2) by auto
  have hist: "history_messages (conversation_history request) =
        map (\<lambda>msg. \<lparr> role = cm_role msg, content = cm_content msg \<rparr>) (drop (length h - 6) h)"
    using assms hne by (simp add: history_messages_def last_n_long)
  have cm: "chat_messages request c =
        map (\<lambda>msg. \<lparr> role = cm_role msg, content = cm_content msg \<rparr>) (drop (length h - 6) h)
        @ [\<lparr> role = ''user'', content = chat_user_prompt (context_text c) (message request) \<rparr>]"
    for c by (simp add: chat_messages_def hist)
  have sm: "stream_messages request c =
        map (\<lambda>msg. \<lparr> role = cm_role msg, content = cm_content msg \<rparr>) (drop (length h - 6) h)
        @ [\<lparr> role = ''user'', content = stream_user_prompt (context_text c) (message request) \<rparr>]"
    for c by (simp add: stream_messages_def hist)
  have len: "length (drop (length h - 6) h) = 6" using assms(2) by simp
  have p1: "chat_messages request cd =
           map (\<lambda>msg. \<lparr> role = cm_role msg, content = cm_content msg \<rparr>) (drop (length h - 6) h)
           @ [\<lparr> role = ''user'',
                content =
                  ''Context information:'' @ [CHR 0x0A] @ context_text cd @ [CHR 0x0A, CHR 0x0A]
                  @ ''Based on the above context, please answer the following question:''
                  @ [CHR 0x0A, CHR 0x0A] @ ''Question: '' @ message request
                  @ [CHR 0x0A, CHR 0x0A] @ ''Answer:'' \<rparr>]"
    by (simp add: cm chat_user_prompt_def)
  have p2: "stream_messages request cd =
           map (\<lambda>msg. \<lparr> role = cm_role msg, content = cm_content msg \<rparr>) (drop (length h - 6) h)
           @ [\<lparr> role = ''user'',
                content =
                  ''Context: '' @ context_text cd @ [CHR 0x0A, CHR 0x0A]
                  @ ''Question: '' @ message request @ [CHR 0x0A, CHR 0x0A] @ ''Answer:'' \<rparr>]"
    by (simp add: sm stream_user_prompt_def)
  have p3: "length (chat_messages request cd) = 7" "length (stream_messages request cd) = 7"
    using len by (simp_all add: cm sm del: length_drop)
  have p4: "validator env (message request) (req_session_id request) = None
              \<and> get_llm_factory env = Inr factory \<and> new_retriever env = Inr search
              \<and> get_system_prompt env = Inr sp \<longrightarrow>
              (let found = retrieve_context (search (message request));
                   reply =
                     generate_with_fallback factory
                       (map (\<lambda>msg. \<lparr> role = cm_role msg, content = cm_content msg \<rparr>)
                            (drop (length h - 6) h)
                        @ [\<lparr> role = ''user'',
                             content =
                               ''Context information:'' @ [CHR 0x0A] @ context_text found
                               @ [CHR 0x0A, CHR 0x0A]
                               @ ''Based on the above context, please answer the following question:''
                               @ [CHR 0x0A, CHR 0x0A] @ ''Question: '' @ message request
                               @ [CHR 0x0A, CHR 0x0A] @ ''Answer:'' \<rparr>])
                       (Some sp) (req_provider request);
                   answer =
                     \<lparr> response = r_content reply, resp_sources = sources found,
                       session_id = session_id_of env request,
                       success = (finish_reason reply \<noteq> Some ''error''),
                       provider_used = provider reply,
                       resp_tokens_used = tokens_used reply \<rparr>
               in fst (chat env request convs) =
                    (case response_model env answer of
                       Some x \<Rightarrow> Inl (HTTPException 500 (str_of x))
                     | None \<Rightarrow> Inr answer)
                  \<and> stored_history (snd (chat env request convs)) (session_id_of env request) =
                      stored_history convs (session_id_of env request)
                      @ [\<lparr> sm_id = user_msg_id env, sm_role = ''user'',
                           sm_content = message request, sm_timestamp = now_user env,
                           sm_provider = None \<rparr>,
                         \<lparr> sm_id = assistant_msg_id env, sm_role = ''assistant'',
                           sm_content = r_content reply, sm_timestamp = now_assistant env,
                           sm_provider = Some (provider reply) \<rparr>])"
    by (auto simp: chat_def Let_def cm internal_error_def store_turn_after_ensure
                   chat_user_prompt_def
             split: option.splits)
  have p5: "validator env (message request) (req_session_id request) = None
              \<and> new_retriever env = Inr search \<and> get_llm_factory env = Inr factory
              \<and> providers factory (stream_provider_name factory request) \<noteq> None
              \<and> get_system_prompt env = Inr sp
              \<and> stream_response env (stream_provider_name factory request)
                   (map (\<lambda>msg. \<lparr> role = cm_role msg, content = cm_content msg \<rparr>)
                        (drop (length h - 6) h)
                    @ [\<lparr> role = ''user'',
                         content =
                           ''Context: ''
                           @ context_text (retrieve_context (search (message request)))
                           @ [CHR 0x0A, CHR 0x0A] @ ''Question: '' @ message request
                           @ [CHR 0x0A, CHR 0x0A] @ ''Answer:'' \<rparr>])
                   (Some sp) = (tokens, raised) \<longrightarrow>
              chat_stream env request =
                Inr (map sse tokens
                     @ [case raised of None \<Rightarrow> sse ''[DONE]'' | Some x \<Rightarrow> error_event x])"
    by (auto simp: chat_stream_def generate_def Let_def sm stream_user_prompt_def)
  from p1 p2 p3 p4 p5 show ?thesis by blast
qed

theorem history_window_witness:
  "conversation_history long_request = Some long_history
   \<and> 6 < length long_history
   \<and> validator example_chat_env (message long_request) (req_session_id long_request) = None
   \<and> get_llm_factory example_chat_env = Inr example_factory
   \<and> get_system_prompt example_chat_env = Inr ''You are a helpful assistant.''
   \<and> map content (chat_messages long_request (retrieve_context (Inr [])))
       = [''q2'', ''a2'', ''q3'', ''a3'', ''q4'', ''a4'',
          ''Context information:'' @ [CHR 0x0A] @ ''No relevant information found.''
          @ [CHR 0x0A, CHR 0x0A]
          @ ''Based on the above context, please answer the following question:''
          @ [CHR 0x0A, CHR 0x0A] @ ''Question: q5'' @ [CHR 0x0A, CHR 0x0A] @ ''Answer:'']
   \<and> map sm_content (stored_history (snd (chat example_chat_env long_request Map.empty)) ''s1'')
       = [''q5'', ''hello'']
   \<and> chat_stream example_chat_env long_request
       = Inr [sse ''Hel'', sse ''lo'', sse ''[DONE]'']"
proof -
  have h1: "conversation_history long_request = Some long_history"
    by (simp add: long_request_def)
  have h2: "6 < length long_history" by (simp add: long_history_def)
  have h3: "validator example_chat_env (message long_request) (req_session_id long_request) = None"
    by (simp add: example_chat_env_def)
  have h4: "get_llm_factory example_chat_env = Inr example_factory"
    "new_retriever example_chat_env = Inr (\<lambda>q. Inr [])"
    "get_system_prompt example_chat_env = Inr ''You are a helpful assistant.''"
    by (simp_all add: example_chat_env_def)
  have h5: "providers example_factory (stream_provider_name example_factory long_request) \<noteq> None"
    by (simp add: stream_provider_name_def long_request_def example_factory_def)
  have h6: "stream_response example_chat_env nm msgs s = ([''Hel'', ''lo''], None)" for nm msgs s
    by (simp add: example_chat_env_def)
  have sid: "session_id_of example_chat_env long_request = ''s1''"
    by (simp add: session_id_of_def long_request_def)
  have np: "req_provider long_request = None" "message long_request = ''q5''"
    by (simp_all add: long_request_def)
  note t = history_window[OF h1 h2, where env = example_chat_env and factory = example_factory
      and search = "\<lambda>q. Inr []" and sp = "''You are a helpful assistant.''"
      and cd = "retrieve_context (Inr [])" and convs = Map.empty
      and tokens = "[''Hel'', ''lo'']" and raised = None]
  show ?thesis
    using t h1 h2 h3 h4 h5 h6 sid np long_history_window
    by (simp add: Let_def example_generate ok_response_def turn_def retrieve_context_def
                  stored_history_def)
qed

text \<open>
  A request with eight history messages on an empty store: the first two are dropped
  from the prompt, and after \<open>chat\<close> the store holds the query and the reply of this
  turn only, none of the history messages.
\<close>

theorem history_not_stored_counterexample:
  "6 < length long_history
   \<and> map content (chat_messages long_request (retrieve_context (Inr [])))
       = [''q2'', ''a2'', ''q3'', ''a3'', ''q4'', ''a4'',
          chat_user_prompt ''No relevant information found.'' ''q5'']
   \<and> map cm_content long_history
       = [''q1'', ''a1'', ''q2'', ''a2'', ''q3'', ''a3'', ''q4'', ''a4'']
   \<and> map sm_content (stored_history (snd (chat example_chat_env long_request Map.empty)) ''s1'')
       = [''q5'', ''hello'']
   \<and> ''q1'' \<notin> set (map sm_content
                     (stored_history (snd (chat example_chat_env long_request Map.empty)) ''s1''))"
proof -
  have st: "map sm_content
              (stored_history (snd (chat example_chat_env long_request Map.empty)) ''s1'')
            = [''q5'', ''hello'']"
    by (simp add: chat_def example_chat_env_def Let_def long_request_def session_id_of_def
                  example_generate ok_response_def store_turn_def ensure_session_def
                  stored_history_def)
  have ms: "map content (chat_messages long_request (retrieve_context (Inr [])))
       = [''q2'', ''a2'', ''q3'', ''a3'', ''q4'', ''a4'',
          chat_user_prompt ''No relevant information found.'' ''q5'']"
    by (simp add: chat_messages_def history_messages_def long_request_def last_n_def
                  long_history_def turn_def retrieve_context_def)
  show ?thesis
    using st ms by (simp add: long_history_def turn_def)
qed

end
